theory Spec2Isabelle
  imports Complex_Main "HOL-Library.Word"
begin

section \<open>Strings\<close>

text \<open>
  A JavaScript string is a sequence of UTF-16 code units; \<open>code[i]\<close>, \<open>length\<close>, the
  regular expressions and \<open>trim\<close> of \<^verbatim>\<open>src/index.js\<close> all work on code units. A string is
  therefore a list of 16-bit words. \<open>js\<close> writes an ASCII literal as such a list.
\<close>

type_synonym jschar = "16 word"
type_synonym jsstring = "jschar list"

abbreviation ch :: "char \<Rightarrow> jschar" where
  "ch c \<equiv> of_char c"

definition js :: "string \<Rightarrow> jsstring" where
  "js s = map of_char s"

text \<open>ECMAScript \<open>LineTerminator\<close>: what \<open>.\<close> of a regular expression does not match.\<close>

definition isLineTerminator :: "jschar \<Rightarrow> bool" where
  "isLineTerminator c = (c = 0x000A \<or> c = 0x000D \<or> c = 0x2028 \<or> c = 0x2029)"

text \<open>
  ECMAScript \<open>WhiteSpace\<close> and \<open>LineTerminator\<close> together: the class \<open>\s\<close> of a regular
  expression, and what \<open>String.prototype.trim\<close> removes.
\<close>

definition isSpace :: "jschar \<Rightarrow> bool" where
  "isSpace c = (c = 0x0009 \<or> c = 0x000A \<or> c = 0x000B \<or> c = 0x000C \<or> c = 0x000D \<or> c = 0x0020
     \<or> c = 0x00A0 \<or> c = 0x1680 \<or> (0x2000 \<le> c \<and> c \<le> 0x200A) \<or> c = 0x2028 \<or> c = 0x2029
     \<or> c = 0x202F \<or> c = 0x205F \<or> c = 0x3000 \<or> c = 0xFEFF)"

text \<open>\<open>String.prototype.trim\<close>.\<close>

definition trim :: "jsstring \<Rightarrow> jsstring" where
  "trim s = rev (dropWhile isSpace (rev (dropWhile isSpace s)))"

text \<open>\<open>String.prototype.startsWith\<close>.\<close>

definition startsWith :: "jsstring \<Rightarrow> jsstring \<Rightarrow> bool" where
  "startsWith s p = (take (length p) s = p)"

text \<open>\<open>code[i]\<close>: the code unit at index \<open>i\<close>, \<open>undefined\<close> (here \<open>None\<close>) out of range.\<close>

definition charAt :: "jsstring \<Rightarrow> int \<Rightarrow> jschar option" where
  "charAt code i = (if 0 \<le> i \<and> i < int (length code) then Some (code ! nat i) else None)"

section \<open>The source normalizer\<close>

text \<open>
  \<^verbatim>\<open>removeCodeComments\<close> (lines 11 to 52): the five local variables of the scan are
  the fields of \<open>scan\<close>, the loop body is \<open>scan_step\<close>, and the loop over
  \<open>i = 0, ..., code.length - 1\<close> is a fold over the indices.
\<close>

record scan =
  inQuoteChar :: "jschar option"
  inBlockComment :: bool
  inLineComment :: bool
  inRegexLiteral :: bool
  newCode :: jsstring

definition scan_init :: scan where
  "scan_init = \<lparr>inQuoteChar = None, inBlockComment = False, inLineComment = False,
     inRegexLiteral = False, newCode = []\<rparr>"

text \<open>Lines 20 to 28: no mode is active, and the code unit at \<open>i\<close> may open one.\<close>

definition enter_mode :: "jsstring \<Rightarrow> scan \<Rightarrow> nat \<Rightarrow> scan" where
  "enter_mode code s i =
    (let c = code ! i; nxt = charAt code (int i + 1)
     in if c = ch CHR 0x22 \<or> c = ch CHR 0x27 \<or> c = ch CHR 0x60 then s\<lparr>inQuoteChar := Some c\<rparr>
        else if c = ch CHR ''/'' \<and> nxt = Some (ch CHR ''*'') then s\<lparr>inBlockComment := True\<rparr>
        else if c = ch CHR ''/'' \<and> nxt = Some (ch CHR ''/'') then s\<lparr>inLineComment := True\<rparr>
        else if c = ch CHR ''/'' \<and> nxt \<noteq> Some (ch CHR ''/'') then s\<lparr>inRegexLiteral := True\<rparr>
        else s)"

text \<open>Lines 30 to 36, 37 to 39, 40 to 42 and 43 to 45: the four \<open>if\<close> statements that close a mode.\<close>

definition leave_quote :: "jsstring \<Rightarrow> scan \<Rightarrow> nat \<Rightarrow> scan" where
  "leave_quote code s i =
    (if inQuoteChar s \<noteq> None \<and>
        ((Some (code ! i) = inQuoteChar s \<and> charAt code (int i - 1) \<noteq> Some (ch CHR 0x5C)) \<or>
         (code ! i = 0x000A \<and> inQuoteChar s \<noteq> Some (ch CHR 0x60)))
     then s\<lparr>inQuoteChar := None\<rparr> else s)"

definition leave_regex :: "jsstring \<Rightarrow> scan \<Rightarrow> nat \<Rightarrow> scan" where
  "leave_regex code s i =
    (if inRegexLiteral s \<and>
        ((code ! i = ch CHR ''/'' \<and> charAt code (int i - 1) \<noteq> Some (ch CHR 0x5C)) \<or> code ! i = 0x000A)
     then s\<lparr>inRegexLiteral := False\<rparr> else s)"

definition leave_block :: "jsstring \<Rightarrow> scan \<Rightarrow> nat \<Rightarrow> scan" where
  "leave_block code s i =
    (if inBlockComment s \<and> charAt code (int i - 1) = Some (ch CHR ''/'')
        \<and> charAt code (int i - 2) = Some (ch CHR ''*'')
     then s\<lparr>inBlockComment := False\<rparr> else s)"

definition leave_line :: "jsstring \<Rightarrow> scan \<Rightarrow> nat \<Rightarrow> scan" where
  "leave_line code s i =
    (if inLineComment s \<and> code ! i = 0x000A then s\<lparr>inLineComment := False\<rparr> else s)"

definition scan_modes :: "jsstring \<Rightarrow> scan \<Rightarrow> nat \<Rightarrow> scan" where
  "scan_modes code s i =
    (if inQuoteChar s = None \<and> \<not> inBlockComment s \<and> \<not> inLineComment s \<and> \<not> inRegexLiteral s
     then enter_mode code s i
     else leave_line code (leave_block code (leave_regex code (leave_quote code s i) i) i) i)"

text \<open>Lines 47 to 49: the code unit is kept unless a comment is open after the mode changes.\<close>

definition scan_step :: "jsstring \<Rightarrow> scan \<Rightarrow> nat \<Rightarrow> scan" where
  "scan_step code s i =
    (let s' = scan_modes code s i
     in if \<not> inBlockComment s' \<and> \<not> inLineComment s'
        then s'\<lparr>newCode := newCode s' @ [code ! i]\<rparr> else s')"

definition removeCodeComments :: "jsstring \<Rightarrow> jsstring" where
  "removeCodeComments code = newCode (foldl (scan_step code) scan_init [0..<length code])"

text \<open>
  \<open>.replace(/\n\s*/g, '')\<close>: scanning from the left, every line feed is deleted together
  with the longest run of \<open>\s\<close> code units after it.
\<close>

function replace_newline_indent :: "jsstring \<Rightarrow> jsstring" where
  "replace_newline_indent [] = []"
| "replace_newline_indent (c # cs) =
     (if c = 0x000A then replace_newline_indent (dropWhile isSpace cs)
      else c # replace_newline_indent cs)"
  by pat_completeness auto
termination
  by (relation "measure length") (auto simp: length_dropWhile_le less_Suc_eq_le)

text \<open>\<^verbatim>\<open>cleanCode\<close> (lines 54 to 57), the normalizer \<open>normalize\<close> of the specification.\<close>

definition cleanCode :: "jsstring \<Rightarrow> jsstring" where
  "cleanCode code = trim (replace_newline_indent (removeCodeComments code))"

section \<open>The looks-like-JSON check\<close>

text \<open>
  \<^verbatim>\<open>isJSON\<close> (line 256) is \<^verbatim>\<open>input.match(/^[\[\{\"\}].*[\]\}\"]$/)\<close>. The expression
  has no flag, so \<open>^\<close> and \<open>$\<close> are the two ends of the input and \<open>.\<close> is any code unit
  but a line terminator: a match is the whole input, made of one code unit of the first class,
  any number of code units that are no line terminators, and one code unit of the second
  class. \<open>match\<close> returns the array of the match (here \<open>Some\<close> of the matched text, which is
  truthy) or \<open>null\<close> (here \<open>None\<close>, which is falsy).
\<close>

definition isJSON_first :: "jschar \<Rightarrow> bool" where
  "isJSON_first c = (c = ch CHR ''['' \<or> c = ch CHR ''{'' \<or> c = ch CHR 0x22 \<or> c = ch CHR ''}'')"

definition isJSON_last :: "jschar \<Rightarrow> bool" where
  "isJSON_last c = (c = ch CHR '']'' \<or> c = ch CHR ''}'' \<or> c = ch CHR 0x22)"

definition isJSON :: "jsstring \<Rightarrow> jsstring option" where
  "isJSON input =
    (case input of
       [] \<Rightarrow> None
     | c # rest \<Rightarrow>
         if isJSON_first c \<and> rest \<noteq> [] \<and> list_all (\<lambda>d. \<not> isLineTerminator d) (butlast rest)
            \<and> isJSON_last (last rest)
         then Some input else None)"

text \<open>
  The check as the specification words it: the trimmed text starts with one of
  \<open>[\<close>, \<open>{\<close>, \<open>"\<close> and ends with one of \<open>]\<close>, \<open>}\<close>, \<open>"\<close>.
\<close>

definition looksLikeJSON_spec :: "jsstring \<Rightarrow> bool" where
  "looksLikeJSON_spec t =
    (let s = trim t
     in s \<noteq> [] \<and> (hd s = ch CHR ''['' \<or> hd s = ch CHR ''{'' \<or> hd s = ch CHR 0x22)
        \<and> (last s = ch CHR '']'' \<or> last s = ch CHR ''}'' \<or> last s = ch CHR 0x22))"

text \<open>\<open>String.prototype.replace(pattern, '')\<close> with a string pattern: the first occurrence is removed.\<close>

fun remove_first :: "jsstring \<Rightarrow> jsstring \<Rightarrow> jsstring" where
  "remove_first pat [] = []"
| "remove_first pat (c # cs) =
     (if startsWith (c # cs) pat then drop (length pat) (c # cs) else c # remove_first pat cs)"

text \<open>\<open>s.match(/(p1|p2)/)\<close> is truthy when one of the texts occurs somewhere in \<open>s\<close>.\<close>

fun occurs_in :: "jsstring \<Rightarrow> jsstring \<Rightarrow> bool" where
  "occurs_in pat [] = (pat = [])"
| "occurs_in pat (c # cs) = (startsWith (c # cs) pat \<or> occurs_in pat cs)"

text \<open>\<open>Array.prototype.join\<close> on an array of strings.\<close>

fun join :: "jsstring \<Rightarrow> jsstring list \<Rightarrow> jsstring" where
  "join sep [] = []"
| "join sep [k] = k"
| "join sep (k # ks) = k @ sep @ join sep ks"

text \<open>
  \<open>String.prototype.slice(start, end)\<close> for \<open>0 \<le> start\<close>: a negative \<open>end\<close> counts from
  the end of the string.
\<close>

definition slice :: "jsstring \<Rightarrow> nat \<Rightarrow> int \<Rightarrow> jsstring" where
  "slice s start e =
    (let to = (if e < 0 then nat (max (int (length s) + e) 0) else min (nat e) (length s))
     in take (to - start) (drop start s))"

text \<open>
  The decimal digits of an array index or an array length (\<open>ToString\<close> of a natural number);
  \<open>digit n\<close> is the last digit of \<open>n\<close>.
\<close>

definition digit :: "nat \<Rightarrow> jschar" where
  "digit n = of_nat (48 + n mod 10)"

function decimal :: "nat \<Rightarrow> jsstring" where
  "decimal n = (if n < 10 then [digit n] else decimal (n div 10) @ [digit n])"
  by pat_completeness auto
termination
  by (relation "measure id") auto

declare decimal.simps [simp del]

definition isDigit :: "jschar \<Rightarrow> bool" where
  "isDigit c = (0x30 \<le> c \<and> c \<le> 0x39)"

text \<open>
  A regular expression made of \<open>\d\<close> and literal characters, anchored at both ends: in the
  pattern, the letter \<open>d\<close> stands for \<open>\d\<close> and every other character for itself.
\<close>

fun matches_digits :: "string \<Rightarrow> jsstring \<Rightarrow> bool" where
  "matches_digits [] [] = True"
| "matches_digits (p # ps) (c # cs) =
     ((if p = CHR ''d'' then isDigit c else c = ch p) \<and> matches_digits ps cs)"
| "matches_digits _ _ = False"

text \<open>
  \<^verbatim>\<open>dateFormat\<close> (line 59), \<^verbatim>\<open>/^\d{4}-\d{2}-\d{2}T\d{2}:\d{2}:\d{2}(\.\d{3})?Z$/\<close>, and its
  \<open>test\<close>.
\<close>

definition dateFormat_test :: "jsstring \<Rightarrow> bool" where
  "dateFormat_test s =
     (matches_digits ''dddd-dd-ddTdd:dd:ddZ'' s \<or> matches_digits ''dddd-dd-ddTdd:dd:dd.dddZ'' s)"

text \<open>
  \<open>value.match(/_function_([^|]*)\|(.*)/)\<close> and \<open>value.match(/_regexp_([^|]*)\|(.*)/)\<close> on a
  \<open>value\<close> that starts with the tag. The first group runs to the first \<open>|\<close> after the tag,
  the second from there to the first line terminator (\<open>.\<close> matches no line terminator, and
  the expression is not anchored at the end). When there is no \<open>|\<close> after the tag there is
  none in the whole string, the expression matches nowhere and \<open>match\<close> returns \<open>null\<close>
  (here \<open>None\<close>).
\<close>

definition match_tagged :: "jsstring \<Rightarrow> jsstring \<Rightarrow> (jsstring \<times> jsstring) option" where
  "match_tagged tag v =
    (let rest = drop (length tag) v
     in if ch CHR ''|'' \<in> set rest
        then Some (takeWhile (\<lambda>c. c \<noteq> ch CHR ''|'') rest,
                   takeWhile (\<lambda>c. \<not> isLineTerminator c) (tl (dropWhile (\<lambda>c. c \<noteq> ch CHR ''|'') rest)))
        else None)"

section \<open>Values and the heap\<close>

text \<open>
  A number is one of the three non-finite values the code tests for, or a finite number. The
  code never computes with a finite number, it only passes it on, so a finite number is
  represented by the rational it denotes (\<open>-0\<close> and \<open>0\<close>, which \<open>===\<close> does not distinguish,
  are one value).
\<close>

datatype jsnum = Finite rat | NaN | PosInfinity | NegInfinity

type_synonym addr = nat

text \<open>
  A value is a primitive or a reference to an object of the heap; two references are the same
  object (\<open>===\<close>) when their addresses are equal. A symbol is represented by its description
  (\<open>None\<close> for \<open>Symbol()\<close>); the identity of symbols is not modelled.
\<close>

datatype jsval =
    VUndefined
  | VNull
  | VBool bool
  | VNum jsnum
  | VStr jsstring
  | VSym "jsstring option"
  | VRef addr

text \<open>
  The time value of a \<open>Date\<close>, by its UTC calendar fields, which determine it; \<open>None\<close> in
  \<open>KDate\<close> is the invalid date.
\<close>

record date =
  year :: int
  month :: nat
  day :: nat
  hours :: nat
  minutes :: nat
  seconds :: nat
  milliseconds :: nat

text \<open>
  What kind of object an object is: an ordinary object, an array, a function with its \<open>name\<close>
  and the text \<open>toString()\<close> returns, a regular expression with its \<open>source\<close> and \<open>flags\<close>,
  a date, or the arrow function that \<^verbatim>\<open>revive\<close> builds at lines 204 to 213, with the \<open>name\<close>
  and \<open>source\<close> it has captured.
\<close>

datatype kind =
    KOrdinary
  | KArray
  | KFunction jsstring jsstring
  | KRegExp jsstring jsstring
  | KDate "date option"
  | KRevived jsstring jsstring

text \<open>
  How far an object can still be changed: as it is made, or after \<open>Object.preventExtensions\<close>,
  \<open>Object.seal\<close> or \<open>Object.freeze\<close>.
\<close>

datatype integrity = Extensible | NonExtensible | Sealed | Frozen

text \<open>
  An object: its kind, \<open>value.constructor.name\<close> (\<open>None\<close> when it has no constructor), its own
  enumerable string-keyed properties in the order in which they are enumerated, and how far
  it can be changed. The elements of an array are its properties under the keys \<open>0\<close>,
  \<open>1\<close>, ...; a hole of an array is an element that is \<open>undefined\<close>. Properties inherited
  from a prototype, accessors, non-enumerable properties and properties made read-only one by
  one are not modelled.
\<close>

record obj =
  kind :: kind
  ctor :: "jsstring option"
  props :: "(jsstring \<times> jsval) list"
  integrity :: integrity

type_synonym heap = "obj list"

definition lookup :: "heap \<Rightarrow> addr \<Rightarrow> obj option" where
  "lookup h a = (if a < length h then Some (h ! a) else None)"

text \<open>An ordinary object literal \<open>{...}\<close> and an array literal \<open>[...]\<close> with the given properties.\<close>

definition object_literal :: "(jsstring \<times> jsval) list \<Rightarrow> obj" where
  "object_literal ps = \<lparr>kind = KOrdinary, ctor = Some (js ''Object''), props = ps, integrity = Extensible\<rparr>"

definition array_literal :: "jsval list \<Rightarrow> obj" where
  "array_literal vs =
     \<lparr>kind = KArray, ctor = Some (js ''Array''), props = zip (map decimal [0..<length vs]) vs, integrity = Extensible\<rparr>"

text \<open>
  The object that holds the property a callback is called for (its \<open>this\<close>): an object of
  the heap, or the wrapper object \<open>{"": value}\<close> that \<open>JSON.stringify\<close> and \<open>JSON.parse\<close>
  make for the root.
\<close>

datatype holder = Wrapper jsval | Holder addr

text \<open>\<open>object[key]\<close> on own properties; a missing property reads as \<open>undefined\<close>.\<close>

definition getProp :: "heap \<Rightarrow> jsval \<Rightarrow> jsstring \<Rightarrow> jsval" where
  "getProp h v k =
    (case v of
       VRef a \<Rightarrow> (case lookup h a of
                    None \<Rightarrow> VUndefined
                  | Some ob \<Rightarrow> (case map_of (props ob) k of None \<Rightarrow> VUndefined | Some x \<Rightarrow> x))
     | _ \<Rightarrow> VUndefined)"

definition Get :: "heap \<Rightarrow> holder \<Rightarrow> jsstring \<Rightarrow> jsval" where
  "Get h holder k =
    (case holder of
       Wrapper v \<Rightarrow> (if k = [] then v else VUndefined)
     | Holder a \<Rightarrow> getProp h (VRef a) k)"

text \<open>Writing a property of a list of properties: an existing key keeps its place.\<close>

fun assign :: "(jsstring \<times> jsval) list \<Rightarrow> jsstring \<Rightarrow> jsval \<Rightarrow> (jsstring \<times> jsval) list" where
  "assign [] k v = [(k, v)]"
| "assign ((k', v') # ps) k v = (if k' = k then (k, v) # ps else (k', v') # assign ps k v)"

text \<open>
  Whether a strict write \<open>object[key] = v\<close> succeeds: an object that cannot be extended takes
  no new key, and a frozen object no value either.
\<close>

definition writable :: "obj \<Rightarrow> jsstring \<Rightarrow> bool" where
  "writable ob k =
    (case integrity ob of
       Extensible \<Rightarrow> True
     | NonExtensible \<Rightarrow> k \<in> set (map fst (props ob))
     | Sealed \<Rightarrow> k \<in> set (map fst (props ob))
     | Frozen \<Rightarrow> False)"

text \<open>
  \<open>object[key] = v\<close> and \<open>delete object[key]\<close> on an object of the heap that allows it (the
  decoder writes to objects that \<open>JSON.parse\<close> has just made).
\<close>

definition setProp :: "heap \<Rightarrow> addr \<Rightarrow> jsstring \<Rightarrow> jsval \<Rightarrow> heap" where
  "setProp h a k v = (if a < length h then h[a := (h ! a)\<lparr>props := assign (props (h ! a)) k v\<rparr>] else h)"

definition deleteProp :: "heap \<Rightarrow> addr \<Rightarrow> jsstring \<Rightarrow> heap" where
  "deleteProp h a k =
    (if a < length h then h[a := (h ! a)\<lparr>props := filter (\<lambda>p. fst p \<noteq> k) (props (h ! a))\<rparr>] else h)"

text \<open>
  The type tests of the packages \<^verbatim>\<open>is-regex\<close>, \<^verbatim>\<open>is-function\<close>, \<^verbatim>\<open>is-symbol\<close> and
  \<^verbatim>\<open>isobject\<close> (an object that is neither \<open>null\<close>, nor an array, nor a function), and
  \<open>Array.isArray\<close>.
\<close>

definition kindOf :: "heap \<Rightarrow> jsval \<Rightarrow> kind option" where
  "kindOf h v = (case v of VRef a \<Rightarrow> map_option kind (lookup h a) | _ \<Rightarrow> None)"

definition isRegExp :: "heap \<Rightarrow> jsval \<Rightarrow> bool" where
  "isRegExp h v = (case kindOf h v of Some (KRegExp s f) \<Rightarrow> True | _ \<Rightarrow> False)"

definition isFunction :: "heap \<Rightarrow> jsval \<Rightarrow> bool" where
  "isFunction h v = (case kindOf h v of Some (KFunction n s) \<Rightarrow> True | Some (KRevived n s) \<Rightarrow> True | _ \<Rightarrow> False)"

definition isSymbol :: "jsval \<Rightarrow> bool" where
  "isSymbol v = (case v of VSym d \<Rightarrow> True | _ \<Rightarrow> False)"

definition isArray :: "heap \<Rightarrow> jsval \<Rightarrow> bool" where
  "isArray h v = (kindOf h v = Some KArray)"

definition isObject :: "heap \<Rightarrow> jsval \<Rightarrow> bool" where
  "isObject h v =
    (case kindOf h v of
       None \<Rightarrow> False
     | Some KArray \<Rightarrow> False
     | Some (KFunction n s) \<Rightarrow> False
     | Some (KRevived n s) \<Rightarrow> False
     | Some _ \<Rightarrow> True)"

text \<open>\<open>ToBoolean\<close>: what \<open>&&\<close> and \<open>if\<close> test.\<close>

definition truthy :: "jsval \<Rightarrow> bool" where
  "truthy v =
    (case v of
       VUndefined \<Rightarrow> False
     | VNull \<Rightarrow> False
     | VBool b \<Rightarrow> b
     | VNum n \<Rightarrow> (n \<noteq> NaN \<and> n \<noteq> Finite 0)
     | VStr s \<Rightarrow> s \<noteq> []
     | VSym d \<Rightarrow> True
     | VRef a \<Rightarrow> True)"

text \<open>\<open>value.name\<close> and \<open>value.toString()\<close> of a function, \<open>value.toString()\<close> of a symbol.\<close>

definition function_name :: "kind \<Rightarrow> jsstring" where
  "function_name k = (case k of KFunction n s \<Rightarrow> n | KRevived n s \<Rightarrow> n | _ \<Rightarrow> [])"

definition function_toString :: "kind \<Rightarrow> jsstring" where
  "function_toString k = (case k of KFunction n s \<Rightarrow> s | KRevived n s \<Rightarrow> s | _ \<Rightarrow> [])"

definition symbol_toString :: "jsstring option \<Rightarrow> jsstring" where
  "symbol_toString d = js ''Symbol('' @ (case d of None \<Rightarrow> [] | Some t \<Rightarrow> t) @ js '')''"

text \<open>
  \<open>Date.prototype.toISOString\<close> of a valid date: \<open>YYYY-MM-DDTHH:mm:ss.sssZ\<close>, and the
  expanded year \<open>+YYYYYY\<close> or \<open>-YYYYYY\<close> outside the years 0 to 9999. \<open>toJSON\<close> of a date
  is this text, and \<open>null\<close> for the invalid date.
\<close>

definition pad2 :: "nat \<Rightarrow> jsstring" where
  "pad2 n = [digit (n div 10), digit n]"

definition pad3 :: "nat \<Rightarrow> jsstring" where
  "pad3 n = [digit (n div 100), digit (n div 10), digit n]"

definition pad4 :: "nat \<Rightarrow> jsstring" where
  "pad4 n = [digit (n div 1000), digit (n div 100), digit (n div 10), digit n]"

definition pad6 :: "nat \<Rightarrow> jsstring" where
  "pad6 n = [digit (n div 100000), digit (n div 10000), digit (n div 1000), digit (n div 100),
             digit (n div 10), digit n]"

definition toISOString :: "date \<Rightarrow> jsstring" where
  "toISOString d =
    (if 0 \<le> year d \<and> year d \<le> 9999 then pad4 (nat (year d))
     else (if year d < 0 then js ''-'' else js ''+'') @ pad6 (nat \<bar>year d\<bar>))
    @ js ''-'' @ pad2 (month d) @ js ''-'' @ pad2 (day d)
    @ js ''T'' @ pad2 (hours d) @ js '':'' @ pad2 (minutes d) @ js '':'' @ pad2 (seconds d)
    @ js ''.'' @ pad3 (milliseconds d) @ js ''Z''"

definition toJSON :: "heap \<Rightarrow> jsval \<Rightarrow> jsval" where
  "toJSON h v =
    (case kindOf h v of
       Some (KDate None) \<Rightarrow> VNull
     | Some (KDate (Some d)) \<Rightarrow> VStr (toISOString d)
     | _ \<Rightarrow> v)"

section \<open>Encoding\<close>

text \<open>
  The variables \<open>objects\<close>, \<open>stack\<close> and \<open>keys\<close> that \<^verbatim>\<open>replace\<close> closes over (lines 62 to
  64). An entry \<open>{keys, value}\<close> of \<open>objects\<close> is a pair. The variables are unassigned until
  the root call assigns them; \<open>JSON.stringify\<close> makes the root call first, so the state
  before it is never read.
\<close>

record rstate =
  objects :: "(jsstring \<times> jsval) list"
  stack :: "jsval list"
  keys :: "jsstring list"

definition rstate_init :: rstate where
  "rstate_init = \<lparr>objects = [], stack = [], keys = []\<rparr>"

text \<open>\<open>this !== stack[0]\<close> negated: the holder is the very object on top of the stack.\<close>

definition same_object :: "holder \<Rightarrow> jsval \<Rightarrow> bool" where
  "same_object this v = (case this of Holder a \<Rightarrow> v = VRef a | Wrapper w \<Rightarrow> False)"

text \<open>Lines 77 to 80: the \<open>while\<close> loop that brings \<open>stack\<close> and \<open>keys\<close> back to the holder.\<close>

fun sync :: "holder \<Rightarrow> jsval list \<Rightarrow> jsstring list \<Rightarrow> jsval list \<times> jsstring list" where
  "sync this [] ks = ([], ks)"
| "sync this (x # stk) ks = (if same_object this x then (x # stk, ks) else sync this stk (butlast ks))"

text \<open>
  Lines 135 to 149: the constructor name is written on the object with \<open>Object.assign\<close>,
  which throws when the write does not succeed (the object is frozen, or it cannot be extended
  and has no such key yet); the exception is caught and ignored.
\<close>

definition attach_constructor_name :: "heap \<Rightarrow> jsval \<Rightarrow> heap" where
  "attach_constructor_name h v =
    (case v of
       VRef a \<Rightarrow>
         (case lookup h a of
            None \<Rightarrow> h
          | Some ob \<Rightarrow>
              (case ctor ob of
                 None \<Rightarrow> h
               | Some n \<Rightarrow>
                   if isObject h v \<and> n \<noteq> [] \<and> n \<noteq> js ''Object'' \<and> writable ob (js ''_constructor-name_'')
                   then setProp h a (js ''_constructor-name_'') (VStr n) else h))
     | _ \<Rightarrow> h)"

text \<open>\<open>value.length\<close> of an array.\<close>

definition arrayLength :: "heap \<Rightarrow> jsval \<Rightarrow> nat" where
  "arrayLength h v =
    (case v of VRef a \<Rightarrow> (case lookup h a of None \<Rightarrow> 0 | Some ob \<Rightarrow> length (props ob)) | _ \<Rightarrow> 0)"

text \<open>
  Lines 126 to 158: what \<^verbatim>\<open>replace\<close> does with a value that is no regular expression,
  function, symbol, string, number or \<open>undefined\<close>.
\<close>

definition replace_container :: "nat \<Rightarrow> jsstring \<Rightarrow> jsval \<Rightarrow> heap \<times> rstate \<Rightarrow> jsval \<times> heap \<times> rstate" where
  "replace_container depth key v hs =
    (let (h, st) = hs
     in if depth \<le> length (stack st)
        then (if isArray h v
              then (VStr (js ''[Array('' @ decimal (arrayLength h v) @ js '')]''), h, st)
              else (VStr (js ''[Object]''), h, st))
        else
          (case find (\<lambda>ob. snd ob = v) (objects st) of
             None \<Rightarrow>
               (let h' = attach_constructor_name h v;
                    ks = keys st @ [key]
                in (v, h', \<lparr>objects = objects st @ [(join (js ''.'') ks, v)], stack = v # stack st, keys = ks\<rparr>))
           | Some found \<Rightarrow> (VStr (js ''_duplicate_'' @ fst found), h, st)))"

text \<open>Lines 82 to 124, then the rest.\<close>

definition replace_value :: "nat \<Rightarrow> jsstring \<Rightarrow> jsval \<Rightarrow> heap \<times> rstate \<Rightarrow> jsval \<times> heap \<times> rstate" where
  "replace_value depth key v hs =
    (let (h, st) = hs
     in if isRegExp h v
        then (case kindOf h v of
                Some (KRegExp source flags) \<Rightarrow> (VStr (js ''_regexp_'' @ flags @ js ''|'' @ source), h, st)
              | _ \<Rightarrow> (v, h, st))
        else if isFunction h v
        then (case kindOf h v of
                Some k \<Rightarrow>
                  (let name = function_name k;
                       stringified = cleanCode (function_toString k)
                   in if \<not> (occurs_in (js ''[native code]'') stringified
                             \<or> occurs_in (js ''WEBPACK_IMPORTED_MODULE'') stringified)
                      then (VStr (js ''_function_'' @ name @ js ''|'' @ stringified), h, st)
                      else (VStr (js ''_function_'' @ name @ js ''|'' @ js ''() => {}''), h, st))
              | None \<Rightarrow> (v, h, st))
        else (case v of
                VSym d \<Rightarrow> (VStr (js ''_symbol_'' @ slice (symbol_toString d) 7 (- 1)), h, st)
              | VStr s \<Rightarrow> (if dateFormat_test s then (VStr (js ''_date_'' @ s), h, st) else (v, h, st))
              | VUndefined \<Rightarrow> (VStr (js ''_undefined_''), h, st)
              | VNum n \<Rightarrow>
                  (if n = NegInfinity then (VStr (js ''_-Infinity_''), h, st)
                   else if n = PosInfinity then (VStr (js ''_Infinity_''), h, st)
                   else if n = NaN then (VStr (js ''_NaN_''), h, st)
                   else (v, h, st))
              | _ \<Rightarrow> replace_container depth key v (h, st)))"

text \<open>
  \<^verbatim>\<open>replace\<close> (lines 66 to 159), the callback that \<^verbatim>\<open>replacer(depth)\<close> returns: called
  with \<open>this\<close>, \<open>key\<close> and \<open>value\<close>, it returns the replacement and leaves the heap and its
  variables changed.
\<close>

definition replace :: "nat \<Rightarrow> holder \<Rightarrow> jsstring \<Rightarrow> jsval \<Rightarrow> heap \<times> rstate \<Rightarrow> jsval \<times> heap \<times> rstate" where
  "replace depth this key v hs =
    (let (h, st) = hs
     in if key = []
        then (v, h, \<lparr>objects = [(js ''root'', v)], stack = [], keys = [js ''root'']\<rparr>)
        else (let (stk, ks) = sync this (stack st) (keys st)
              in replace_value depth key v (h, st\<lparr>stack := stk, keys := ks\<rparr>)))"

section \<open>JSON.stringify\<close>

text \<open>
  \<open>JSON.stringify\<close> and \<open>JSON.parse\<close> belong to the host. The text between them is
  represented by the JSON value it denotes: the printer of the host writes a tree of this type
  as text and its parser reads the same tree back, so the \<open>space\<close> option, which only changes
  the layout of the text, has no part in the model.
\<close>

datatype json =
    JNull
  | JBool bool
  | JNum rat
  | JStr jsstring
  | JArr "json list"
  | JObj "(jsstring \<times> json) list"

datatype error = TypeError | SyntaxError

text \<open>The keys that \<open>SerializeJSONObject\<close> and \<open>SerializeJSONArray\<close> go through.\<close>

definition ownKeys :: "obj \<Rightarrow> jsstring list" where
  "ownKeys ob = (if kind ob = KArray then map decimal [0..<length (props ob)] else map fst (props ob))"

definition isCallable :: "obj \<Rightarrow> bool" where
  "isCallable ob = (case kind ob of KFunction n s \<Rightarrow> True | KRevived n s \<Rightarrow> True | _ \<Rightarrow> False)"

text \<open>
  The members of an object are the properties whose value did not serialize to \<open>undefined\<close>;
  in an array such an element is written as \<open>null\<close>.
\<close>

definition json_of_members :: "obj \<Rightarrow> (jsstring \<times> json option) list \<Rightarrow> json" where
  "json_of_members ob ms =
    (if kind ob = KArray then JArr (map (\<lambda>m. case snd m of None \<Rightarrow> JNull | Some j \<Rightarrow> j) ms)
     else JObj (concat (map (\<lambda>m. case snd m of None \<Rightarrow> [] | Some j \<Rightarrow> [(fst m, j)]) ms)))"

text \<open>
  \<open>SerializeJSONProperty\<close> of ECMAScript with a replacer function: the value is read from the
  holder, \<open>toJSON\<close> is called on it, then the replacer; what the replacer returns is written
  (a function or a symbol as \<open>undefined\<close>, here \<open>None\<close>; a number that is not finite as
  \<open>null\<close>), and an object or array is gone through key by key, after the check that it is
  not already on the serializer's own stack \<open>stk\<close> (a cyclic structure is a \<open>TypeError\<close>).
  The first argument bounds the nesting; the result is \<open>None\<close> when it is used up.
\<close>

fun SerializeJSONProperty ::
    "nat \<Rightarrow> nat \<Rightarrow> addr list \<Rightarrow> holder \<Rightarrow> jsstring \<Rightarrow> heap \<times> rstate
      \<Rightarrow> ((error + json option) \<times> heap \<times> rstate) option"
  and SerializeJSONProperties ::
    "nat \<Rightarrow> nat \<Rightarrow> addr list \<Rightarrow> addr \<Rightarrow> jsstring list \<Rightarrow> heap \<times> rstate
      \<Rightarrow> ((error + (jsstring \<times> json option) list) \<times> heap \<times> rstate) option"
where
  "SerializeJSONProperty 0 depth stk holder key hs = None"
| "SerializeJSONProperty (Suc n) depth stk holder key hs =
    (case replace depth holder key (toJSON (fst hs) (Get (fst hs) holder key)) hs of
       (v, h, st) \<Rightarrow>
         (case v of
            VNull \<Rightarrow> Some (Inr (Some JNull), h, st)
          | VBool b \<Rightarrow> Some (Inr (Some (JBool b)), h, st)
          | VStr s \<Rightarrow> Some (Inr (Some (JStr s)), h, st)
          | VNum (Finite r) \<Rightarrow> Some (Inr (Some (JNum r)), h, st)
          | VNum _ \<Rightarrow> Some (Inr (Some JNull), h, st)
          | VUndefined \<Rightarrow> Some (Inr None, h, st)
          | VSym d \<Rightarrow> Some (Inr None, h, st)
          | VRef a \<Rightarrow>
              (case lookup h a of
                 None \<Rightarrow> Some (Inr None, h, st)
               | Some ob \<Rightarrow>
                   if isCallable ob then Some (Inr None, h, st)
                   else if a \<in> set stk then Some (Inl TypeError, h, st)
                   else (case SerializeJSONProperties n depth (a # stk) a (ownKeys ob) (h, st) of
                           None \<Rightarrow> None
                         | Some (Inl e, hs') \<Rightarrow> Some (Inl e, hs')
                         | Some (Inr ms, hs') \<Rightarrow> Some (Inr (Some (json_of_members ob ms)), hs')))))"
| "SerializeJSONProperties n depth stk a [] hs = Some (Inr [], hs)"
| "SerializeJSONProperties n depth stk a (k # ks) hs =
    (case SerializeJSONProperty n depth stk (Holder a) k hs of
       None \<Rightarrow> None
     | Some (Inl e, hs') \<Rightarrow> Some (Inl e, hs')
     | Some (Inr j, hs') \<Rightarrow>
         (case SerializeJSONProperties n depth stk a ks hs' of
            None \<Rightarrow> None
          | Some (Inl e, hs'') \<Rightarrow> Some (Inl e, hs'')
          | Some (Inr ms, hs'') \<Rightarrow> Some (Inr ((k, j) # ms), hs'')))"

text \<open>
  \<^verbatim>\<open>stringify\<close> (line 258): \<open>JSON.stringify(data, replacer(options.maxDepth || 10),
  options.space)\<close>. \<open>maxDepth\<close> is \<open>None\<close> when the option is not given; \<open>0\<close> is falsy. The
  result is the text (\<open>None\<close> when \<open>JSON.stringify\<close> returns \<open>undefined\<close>) or the exception,
  with the heap as the call leaves it. The serializer's stack holds different objects of the
  heap, so the nesting never passes the number of objects. \<open>stringify_run\<close> is the call of
  \<open>JSON.stringify\<close> with, beside its result and the heap, the variables of the replacer as
  the call leaves them; \<^verbatim>\<open>stringify\<close> returns the result, and the caller sees the heap.
\<close>

definition stringify_run ::
    "jsval \<Rightarrow> nat option \<Rightarrow> heap \<Rightarrow> ((error + json option) \<times> heap \<times> rstate) option" where
  "stringify_run data maxDepth h =
    (let depth = (case maxDepth of None \<Rightarrow> 10 | Some d \<Rightarrow> if d = 0 then 10 else d)
     in SerializeJSONProperty (Suc (length h)) depth [] (Wrapper data) [] (h, rstate_init))"

definition stringify :: "jsval \<Rightarrow> nat option \<Rightarrow> heap \<Rightarrow> ((error + json option) \<times> heap) option" where
  "stringify data maxDepth h = map_option (\<lambda>r. (fst r, fst (snd r))) (stringify_run data maxDepth h)"

section \<open>Decoding\<close>

text \<open>
  What \<^verbatim>\<open>revive\<close> asks of the host and of the packages it imports, and cannot be computed
  here. \<open>RegExp_new source flags\<close> is the \<open>source\<close> and \<open>flags\<close> of the object
  \<open>new RegExp(source, flags)\<close> makes, \<open>None\<close> when the constructor throws a \<open>SyntaxError\<close>.
  \<open>Function_named h name\<close> is the \<open>name\<close> of the function that
  \<^verbatim>\<open>new Function(`return function ${name}(){}`)()\<close> returns, \<open>None\<close> when that throws a
  \<open>SyntaxError\<close>. \<open>Date_new s\<close> is the time value of \<open>new Date(s)\<close>, \<open>None\<close> for the invalid
  date. \<open>get h object path\<close> is what \<open>get(object, path)\<close> of the package \<^verbatim>\<open>lodash.get\<close>
  returns in the heap \<open>h\<close>: the value found by following the path from the object, through
  own and inherited properties, and \<open>undefined\<close> when the path cannot be followed; it throws
  nothing and changes nothing.
\<close>

record host =
  RegExp_new :: "jsstring \<Rightarrow> jsstring \<Rightarrow> (jsstring \<times> jsstring) option"
  Function_named :: "heap \<Rightarrow> jsval \<Rightarrow> jsstring option"
  Date_new :: "jsstring \<Rightarrow> date option"
  get :: "heap \<Rightarrow> jsval \<Rightarrow> jsstring \<Rightarrow> jsval"

text \<open>
  An entry \<open>{target, container, replacement}\<close> of \<open>refs\<close>, and the variables \<open>refs\<close> and
  \<open>root\<close> that \<^verbatim>\<open>revive\<close> closes over (lines 163 and 164).
\<close>

record ref =
  target :: jsstring
  container :: holder
  replacement :: jsstring

record vstate =
  refs :: "ref list"
  root :: jsval

definition vstate_init :: vstate where
  "vstate_init = \<lparr>refs = [], root = VUndefined\<rparr>"

text \<open>
  Lines 172 to 180, the body of \<open>refs.forEach\<close>: the value found for \<open>replacement\<close> is
  written into the container at the target key. The containers are objects that
  \<open>JSON.parse\<close> has made, which can be written to; the root's wrapper is no object of the
  heap.
\<close>

definition restore_ref :: "host \<Rightarrow> jsval \<Rightarrow> heap \<Rightarrow> ref \<Rightarrow> heap" where
  "restore_ref H rt h r =
    (let x = (if replacement r = js ''root'' then rt
              else get H h rt (remove_first (js ''root.'') (replacement r)))
     in case container r of Holder a \<Rightarrow> setProp h a (target r) x | Wrapper w \<Rightarrow> h)"

text \<open>
  Lines 189 to 197: an object with a truthy \<open>_constructor-name_\<close> gets a prototype made by a
  function of that name, and loses the property.
\<close>

definition revive_instance :: "host \<Rightarrow> jsval \<Rightarrow> heap \<times> vstate \<Rightarrow> error + (jsval \<times> heap \<times> vstate)" where
  "revive_instance H v hs =
    (let (h, st) = hs
     in case v of
          VRef a \<Rightarrow>
            (let name = getProp h v (js ''_constructor-name_'')
             in if name \<noteq> VStr (js ''Object'')
                then (case Function_named H h name of
                        None \<Rightarrow> Inl SyntaxError
                      | Some n \<Rightarrow>
                          (case lookup h a of
                             None \<Rightarrow> Inr (v, h, st)
                           | Some ob \<Rightarrow>
                               Inr (v, deleteProp (h[a := ob\<lparr>ctor := Some n\<rparr>]) a (js ''_constructor-name_''), st)))
                else Inr (v, deleteProp h a (js ''_constructor-name_''), st))
        | _ \<Rightarrow> Inr (v, h, st))"

text \<open>
  Lines 200 to 252: the tagged strings. Destructuring the \<open>null\<close> that \<open>match\<close> returns is a
  \<open>TypeError\<close>. The function, regular expression and date that are built are new objects of
  the heap.
\<close>

definition new_object :: "kind \<Rightarrow> jsstring \<Rightarrow> heap \<Rightarrow> jsval \<times> heap" where
  "new_object k c h = (VRef (length h), h @ [\<lparr>kind = k, ctor = Some c, props = [], integrity = Extensible\<rparr>])"

definition revive_string ::
    "host \<Rightarrow> holder \<Rightarrow> jsstring \<Rightarrow> jsstring \<Rightarrow> heap \<times> vstate \<Rightarrow> error + (jsval \<times> heap \<times> vstate)" where
  "revive_string H this key s hs =
    (let (h, st) = hs
     in if startsWith s (js ''_function_'')
        then (case match_tagged (js ''_function_'') s of
                None \<Rightarrow> Inl TypeError
              | Some (name, source) \<Rightarrow>
                  (case new_object (KRevived name source) (js ''Function'') h of (v, h') \<Rightarrow> Inr (v, h', st)))
        else if startsWith s (js ''_regexp_'')
        then (case match_tagged (js ''_regexp_'') s of
                None \<Rightarrow> Inl TypeError
              | Some (flags, source) \<Rightarrow>
                  (case RegExp_new H source flags of
                     None \<Rightarrow> Inl SyntaxError
                   | Some (source', flags') \<Rightarrow>
                       (case new_object (KRegExp source' flags') (js ''RegExp'') h of (v, h') \<Rightarrow> Inr (v, h', st))))
        else if startsWith s (js ''_date_'')
        then (case new_object (KDate (Date_new H (remove_first (js ''_date_'') s))) (js ''Date'') h of
                (v, h') \<Rightarrow> Inr (v, h', st))
        else if startsWith s (js ''_duplicate_'')
        then Inr (VNull, h,
                  st\<lparr>refs := refs st @ [\<lparr>target = key, container = this,
                                          replacement = remove_first (js ''_duplicate_'') s\<rparr>]\<rparr>)
        else if startsWith s (js ''_symbol_'')
        then Inr (VSym (Some (remove_first (js ''_symbol_'') s)), h, st)
        else if s = js ''_undefined_'' then Inr (VUndefined, h, st)
        else if s = js ''_-Infinity_'' then Inr (VNum NegInfinity, h, st)
        else if s = js ''_Infinity_'' then Inr (VNum PosInfinity, h, st)
        else if s = js ''_NaN_'' then Inr (VNum NaN, h, st)
        else Inr (VStr s, h, st))"

text \<open>
  \<^verbatim>\<open>revive\<close> (lines 166 to 253), the callback that \<^verbatim>\<open>reviver()\<close> returns: called with
  \<open>this\<close>, \<open>key\<close> and \<open>value\<close>, it returns the revived value or throws, and leaves the heap and
  its variables changed.
\<close>

definition revive :: "host \<Rightarrow> holder \<Rightarrow> jsstring \<Rightarrow> jsval \<Rightarrow> heap \<times> vstate \<Rightarrow> error + (jsval \<times> heap \<times> vstate)" where
  "revive H this key v hs =
    (let (h0, st0) = hs;
         st = (if key = [] then st0\<lparr>root := v\<rparr> else st0);
         h = (if key = [] then foldl (restore_ref H v) h0 (refs st0) else h0)
     in if key = js ''_constructor-name_'' then Inr (v, h, st)
        else if isObject h v \<and> truthy (getProp h v (js ''_constructor-name_''))
        then revive_instance H v (h, st)
        else (case v of
                VStr s \<Rightarrow> revive_string H this key s (h, st)
              | _ \<Rightarrow> Inr (v, h, st)))"

section \<open>JSON.parse\<close>

text \<open>
  The first half of \<open>JSON.parse\<close>: the value the text denotes is built in the heap, the
  members of an array or object before the array or object itself. A key that comes twice in
  an object keeps its first place and its last value.
\<close>

fun alloc :: "json \<Rightarrow> heap \<Rightarrow> jsval \<times> heap"
  and alloc_list :: "json list \<Rightarrow> heap \<Rightarrow> jsval list \<times> heap"
where
  "alloc JNull h = (VNull, h)"
| "alloc (JBool b) h = (VBool b, h)"
| "alloc (JNum r) h = (VNum (Finite r), h)"
| "alloc (JStr s) h = (VStr s, h)"
| "alloc (JArr ts) h =
    (case alloc_list ts h of (vs, h') \<Rightarrow> (VRef (length h'), h' @ [array_literal vs]))"
| "alloc (JObj ms) h =
    (case alloc_list (map snd ms) h of
       (vs, h') \<Rightarrow>
         (VRef (length h'),
          h' @ [object_literal (foldl (\<lambda>ps m. assign ps (fst m) (snd m)) [] (zip (map fst ms) vs))]))"
| "alloc_list [] h = ([], h)"
| "alloc_list (t # ts) h =
    (case alloc t h of (v, h') \<Rightarrow> (case alloc_list ts h' of (vs, h'') \<Rightarrow> (v # vs, h'')))"

text \<open>
  The second half, \<open>InternalizeJSONProperty\<close> of ECMAScript: the value is read from the
  holder; if it is an object, each of its keys is internalized first, and the result is
  written back under the key, or the key is deleted when the result is \<open>undefined\<close> (in an
  array, a hole); then the reviver is called. The first argument bounds the nesting; the
  result is \<open>None\<close> when it is used up.
\<close>

fun InternalizeJSONProperty ::
    "host \<Rightarrow> nat \<Rightarrow> holder \<Rightarrow> jsstring \<Rightarrow> heap \<times> vstate \<Rightarrow> (error + (jsval \<times> heap \<times> vstate)) option"
  and InternalizeJSONProperties ::
    "host \<Rightarrow> nat \<Rightarrow> addr \<Rightarrow> jsstring list \<Rightarrow> heap \<times> vstate \<Rightarrow> (error + (heap \<times> vstate)) option"
where
  "InternalizeJSONProperty H 0 holder name hs = None"
| "InternalizeJSONProperty H (Suc n) holder name hs =
    (let v = Get (fst hs) holder name
     in case v of
          VRef a \<Rightarrow>
            (case lookup (fst hs) a of
               None \<Rightarrow> Some (revive H holder name v hs)
             | Some ob \<Rightarrow>
                 (case InternalizeJSONProperties H n a (ownKeys ob) hs of
                    None \<Rightarrow> None
                  | Some (Inl e) \<Rightarrow> Some (Inl e)
                  | Some (Inr hs') \<Rightarrow> Some (revive H holder name v hs')))
        | _ \<Rightarrow> Some (revive H holder name v hs))"
| "InternalizeJSONProperties H n a [] hs = Some (Inr hs)"
| "InternalizeJSONProperties H n a (k # ks) hs =
    (case InternalizeJSONProperty H n (Holder a) k hs of
       None \<Rightarrow> None
     | Some (Inl e) \<Rightarrow> Some (Inl e)
     | Some (Inr (v, h, st)) \<Rightarrow>
         InternalizeJSONProperties H n a ks
           (if v = VUndefined
            then (if isArray h (VRef a) then setProp h a k VUndefined else deleteProp h a k)
            else setProp h a k v, st))"

text \<open>
  \<^verbatim>\<open>parse\<close> (line 259): \<open>JSON.parse(data, reviver())\<close>. \<open>None\<close> as data is a text that is no
  JSON, such as the \<open>undefined\<close> that \<^verbatim>\<open>stringify\<close> can return, which \<open>JSON.parse\<close> answers with
  a \<open>SyntaxError\<close>. The nesting of a tree is less than its size.
\<close>

definition parse :: "host \<Rightarrow> json option \<Rightarrow> heap \<Rightarrow> (error + (jsval \<times> heap)) option" where
  "parse H data h =
    (case data of
       None \<Rightarrow> Some (Inl SyntaxError)
     | Some t \<Rightarrow>
         (case alloc t h of
            (v, h') \<Rightarrow>
              map_option (map_sum id (\<lambda>r. (fst r, fst (snd r))))
                (InternalizeJSONProperty H (Suc (size t)) (Wrapper v) [] (h', vstate_init))))"

text \<open>
  Calling the arrow function of lines 204 to 207, \<^verbatim>\<open>(...args) => { const f =
  safeEval(`(${source})`); f(...args); }\<close>, with the evaluator of the package \<^verbatim>\<open>safe-eval\<close>
  as a parameter: \<open>safeEval text\<close> is the function the text evaluates to, given as the
  result it returns for a list of arguments. The body of the arrow function is a block
  without a \<open>return\<close> statement.
\<close>

definition call_revived :: "(jsstring \<Rightarrow> jsval list \<Rightarrow> jsval) \<Rightarrow> jsstring \<Rightarrow> jsval list \<Rightarrow> jsval" where
  "call_revived safeEval source args =
    (let f = safeEval (js ''('' @ source @ js '')'');
         r = f args
     in VUndefined)"

text \<open>\<open>parse(stringify(data, options))\<close>: the text that \<^verbatim>\<open>stringify\<close> returns is given to \<^verbatim>\<open>parse\<close>.\<close>

definition roundtrip :: "host \<Rightarrow> jsval \<Rightarrow> nat option \<Rightarrow> heap \<Rightarrow> (error + (jsval \<times> heap)) option" where
  "roundtrip H data maxDepth h =
    (case stringify data maxDepth h of
       None \<Rightarrow> None
     | Some (Inl e, h') \<Rightarrow> Some (Inl e)
     | Some (Inr text, h') \<Rightarrow> parse H text h')"

text \<open>
  The object \<open>{k: x}\<close> is made as a new object of the heap, encoded and decoded; the result is
  what the decoded object holds under \<open>k\<close>, with the kind of object it is when it is one.
\<close>

definition decoded_member :: "host \<Rightarrow> jsstring \<Rightarrow> jsval \<Rightarrow> heap \<Rightarrow> (error + (jsval \<times> kind option)) option" where
  "decoded_member H k x h =
    (case roundtrip H (VRef (length h)) None (h @ [object_literal [(k, x)]]) of
       None \<Rightarrow> None
     | Some (Inl e) \<Rightarrow> Some (Inl e)
     | Some (Inr (v, h')) \<Rightarrow> Some (Inr (getProp h' v k, kindOf h' (getProp h' v k))))"

text \<open>
  A host for the examples: it builds a regular expression from any source and flags, names a
  function after any string, and reads one ISO date. Its \<open>get\<close> reads the path as one key of
  the object itself: the examples ask it for no path with a dot or a bracket in it, and for no
  key that an object inherits.
\<close>

definition date_example :: date where
  "date_example = \<lparr>year = 2020, month = 1, day = 2, hours = 3, minutes = 4, seconds = 5, milliseconds = 678\<rparr>"

definition host_example :: host where
  "host_example = \<lparr>RegExp_new = (\<lambda>source flags. Some (source, flags)),
     Function_named = (\<lambda>h name. case name of VStr s \<Rightarrow> Some s | _ \<Rightarrow> None),
     Date_new = (\<lambda>s. if s = js ''2020-01-02T03:04:05.678Z'' then Some date_example else None),
     get = (\<lambda>h object path. getProp h object path)\<rparr>"

text \<open>
  An object on which line 143 writes the constructor name when \<^verbatim>\<open>replace\<close> comes to it
  through \<open>JSON.stringify\<close>: it is an ordinary object (no array, no function; a regular
  expression is tagged at line 83, and a date has been replaced by the result of its \<open>toJSON\<close>),
  its constructor has a name other than \<open>Object\<close>, and the write succeeds; and the object
  with the name written under \<open>_constructor-name_\<close>.
\<close>

definition can_mark :: "obj \<Rightarrow> bool" where
  "can_mark ob =
    (kind ob = KOrdinary \<and> writable ob (js ''_constructor-name_'')
     \<and> (case ctor ob of None \<Rightarrow> False | Some n \<Rightarrow> n \<noteq> [] \<and> n \<noteq> js ''Object''))"

definition marked :: "obj \<Rightarrow> obj" where
  "marked ob =
    (case ctor ob of
       None \<Rightarrow> ob
     | Some n \<Rightarrow> ob\<lparr>props := assign (props ob) (js ''_constructor-name_'') (VStr n)\<rparr>)"

text \<open>
  The heap \<open>h'\<close> differs from \<open>h\<close> at most by constructor names written on objects on which
  they can be written: every other object, and every other key and value of a marked object,
  is as it was.
\<close>

definition only_marked :: "heap \<Rightarrow> heap \<Rightarrow> bool" where
  "only_marked h h' =
    (length h' = length h
     \<and> list_all2 (\<lambda>ob ob'. ob' = ob \<or> (can_mark ob \<and> ob' = marked ob)) h h')"

section \<open>Basic facts about strings and the heap\<close>

lemma js_Nil [simp]: "js [] = []"
  by (simp add: js_def)

lemma js_Cons [simp]: "js (c # cs) = of_char c # js cs"
  by (simp add: js_def)

lemma startsWith_append [simp]: "startsWith (p @ s) p"
  by (simp add: startsWith_def)

lemma remove_first_prefix [simp]: "p \<noteq> [] \<Longrightarrow> remove_first p (p @ s) = s"
  by (cases p) (simp_all add: startsWith_def)

lemma map_of_assign [simp]: "map_of (assign ps k v) k' = (if k' = k then Some v else map_of ps k')"
  by (induction ps) auto

lemma map_fst_assign: "k \<in> fst ` set ps \<Longrightarrow> map fst (assign ps k v) = map fst ps"
  by (induction ps) force+

lemma map_of_filter_key [simp]:
  "map_of (filter (\<lambda>p. fst p \<noteq> k) ps) k' = (if k' = k then None else map_of ps k')"
  by (induction ps) auto

lemma length_setProp [simp]: "length (setProp h a k v) = length h"
  by (simp add: setProp_def)

lemma length_deleteProp [simp]: "length (deleteProp h a k) = length h"
  by (simp add: deleteProp_def)

lemma lookup_append [simp]: "lookup (h @ [ob]) a = (if a = length h then Some ob else lookup h a)"
  by (auto simp: lookup_def nth_append)

lemma lookup_Some_less: "lookup h a = Some ob \<Longrightarrow> a < length h \<and> h ! a = ob"
  by (auto simp: lookup_def split: if_splits)

lemma lookup_setProp:
  "lookup (setProp h a k v) b =
     (if b = a then map_option (\<lambda>ob. ob\<lparr>props := assign (props ob) k v\<rparr>) (lookup h a) else lookup h b)"
  by (auto simp: lookup_def setProp_def)

lemma lookup_deleteProp:
  "lookup (deleteProp h a k) b =
     (if b = a then map_option (\<lambda>ob. ob\<lparr>props := filter (\<lambda>p. fst p \<noteq> k) (props ob)\<rparr>) (lookup h a)
      else lookup h b)"
  by (auto simp: lookup_def deleteProp_def)

lemma kindOf_setProp [simp]: "kindOf (setProp h a k v) x = kindOf h x"
  by (cases x) (auto simp: kindOf_def lookup_setProp map_option_case split: option.splits)

lemma kindOf_deleteProp [simp]: "kindOf (deleteProp h a k) x = kindOf h x"
  by (cases x) (auto simp: kindOf_def lookup_deleteProp map_option_case split: option.splits)

lemma isObject_setProp [simp]: "isObject (setProp h a k v) x = isObject h x"
  by (simp add: isObject_def)

lemma isArray_setProp [simp]: "isArray (setProp h a k v) x = isArray h x"
  by (simp add: isArray_def)

lemma isObject_deleteProp [simp]: "isObject (deleteProp h a k) x = isObject h x"
  by (simp add: isObject_def)

lemma getProp_setProp:
  "a < length h \<Longrightarrow> getProp (setProp h a k v) (VRef b) k' =
     (if b = a \<and> k' = k then v else getProp h (VRef b) k')"
  by (auto simp: getProp_def setProp_def lookup_def nth_list_update)

lemma getProp_deleteProp:
  "getProp (deleteProp h a k) (VRef b) k' =
     (if b = a \<and> k' = k then VUndefined else getProp h (VRef b) k')"
  by (auto simp: getProp_def lookup_deleteProp split: option.splits)

lemma getProp_primitive [simp]:
  "getProp h VUndefined k = VUndefined" "getProp h VNull k = VUndefined"
  "getProp h (VBool b) k = VUndefined" "getProp h (VNum n) k = VUndefined"
  "getProp h (VStr s) k = VUndefined" "getProp h (VSym d) k = VUndefined"
  by (simp_all add: getProp_def)

lemma kindOf_primitive [simp]:
  "kindOf h VUndefined = None" "kindOf h VNull = None" "kindOf h (VBool b) = None"
  "kindOf h (VNum n) = None" "kindOf h (VStr s) = None" "kindOf h (VSym d) = None"
  by (simp_all add: kindOf_def)

lemma truthy_simps [simp]:
  "\<not> truthy VUndefined" "\<not> truthy VNull" "truthy (VBool b) = b" "truthy (VStr s) = (s \<noteq> [])"
  "truthy (VRef a)" "truthy (VSym d)"
  by (simp_all add: truthy_def)

section \<open>Properties of the source normalizer\<close>

lemmas scan_defs = removeCodeComments_def scan_step_def scan_modes_def enter_mode_def
  leave_quote_def leave_regex_def leave_block_def leave_line_def scan_init_def charAt_def

lemma leave_newCode [simp]:
  "newCode (leave_quote code s i) = newCode s"
  "newCode (leave_regex code s i) = newCode s"
  "newCode (leave_block code s i) = newCode s"
  "newCode (leave_line code s i) = newCode s"
  "newCode (enter_mode code s i) = newCode s"
  by (simp_all add: leave_quote_def leave_regex_def leave_block_def leave_line_def enter_mode_def Let_def)

lemma scan_modes_newCode [simp]: "newCode (scan_modes code s i) = newCode s"
  by (simp add: scan_modes_def)

lemma newCode_scan_step:
  "newCode (scan_step code s i) = newCode s \<or> newCode (scan_step code s i) = newCode s @ [code ! i]"
  by (simp add: scan_step_def Let_def)

text \<open>
  The scan keeps code units in the order of the text, and drops the others: after \<open>n\<close> rounds
  of the loop it has kept at most \<open>n\<close> code units, and if it has kept \<open>n\<close>, they are the first
  \<open>n\<close> code units of the text.
\<close>

lemma scan_keeps:
  "n \<le> length t \<Longrightarrow>
     length (newCode (foldl (scan_step t) scan_init [0..<n])) \<le> n
     \<and> (length (newCode (foldl (scan_step t) scan_init [0..<n])) = n
          \<longrightarrow> newCode (foldl (scan_step t) scan_init [0..<n]) = take n t)"
proof (induction n)
  case 0
  then show ?case by (simp add: scan_init_def)
next
  case (Suc n)
  define s where "s = foldl (scan_step t) scan_init [0..<n]"
  from Suc have IH: "length (newCode s) \<le> n" "length (newCode s) = n \<longrightarrow> newCode s = take n t"
    and n: "n < length t" by (simp_all add: s_def)
  have f: "foldl (scan_step t) scan_init [0..<Suc n] = scan_step t s n" by (simp add: s_def)
  from newCode_scan_step[of t s n] show ?case
  proof
    assume "newCode (scan_step t s n) = newCode s"
    then show ?thesis unfolding f using IH(1) by simp
  next
    assume "newCode (scan_step t s n) = newCode s @ [t ! n]"
    then show ?thesis unfolding f using IH n by (simp add: take_Suc_conv_app_nth)
  qed
qed

lemma length_removeCodeComments: "length (removeCodeComments t) \<le> length t"
  using scan_keeps[of "length t" t] by (simp add: removeCodeComments_def)

lemma removeCodeComments_same_length:
  "length (removeCodeComments t) = length t \<Longrightarrow> removeCodeComments t = t"
  using scan_keeps[of "length t" t] by (simp add: removeCodeComments_def)

lemma length_replace_newline_indent: "length (replace_newline_indent s) \<le> length s"
proof (induction s rule: replace_newline_indent.induct)
  case 1
  show ?case by simp
next
  case (2 c cs)
  show ?case
  proof (cases "c = 0x000A")
    case True
    with 2 have "length (replace_newline_indent (dropWhile isSpace cs)) \<le> length (dropWhile isSpace cs)"
      by simp
    also have "\<dots> \<le> length cs" by (rule length_dropWhile_le)
    finally show ?thesis using True by simp
  next
    case False
    with 2 show ?thesis by simp
  qed
qed

lemma length_trim: "length (trim s) \<le> length s"
proof -
  have "length (dropWhile isSpace (rev (dropWhile isSpace s))) \<le> length (rev (dropWhile isSpace s))"
    by (rule length_dropWhile_le)
  also have "\<dots> \<le> length s" by (simp add: length_dropWhile_le)
  finally show ?thesis by (simp add: trim_def)
qed

lemma replace_newline_indent_set: "set (replace_newline_indent s) \<subseteq> set s - {0x000A}"
proof (induction s rule: replace_newline_indent.induct)
  case 1 show ?case by simp
next
  case (2 c cs)
  show ?case
  proof (cases "c = 0x000A")
    case True
    with 2 have "set (replace_newline_indent (dropWhile isSpace cs)) \<subseteq> set (dropWhile isSpace cs) - {0x000A}"
      by simp
    moreover have "set (dropWhile isSpace cs) \<subseteq> set cs" using set_dropWhileD by fastforce
    ultimately show ?thesis using True by auto
  next
    case False
    with 2 show ?thesis by auto
  qed
qed

lemma replace_newline_indent_id: "0x000A \<notin> set s \<Longrightarrow> replace_newline_indent s = s"
  by (induction s) auto

lemma set_trim: "set (trim s) \<subseteq> set s"
proof -
  have "set (dropWhile isSpace (rev (dropWhile isSpace s))) \<subseteq> set (rev (dropWhile isSpace s))"
    using set_dropWhileD by fastforce
  moreover have "set (dropWhile isSpace s) \<subseteq> set s" using set_dropWhileD by fastforce
  ultimately show ?thesis by (auto simp: trim_def)
qed

lemma dropWhile_rev_dropWhile:
  "dropWhile P (rev (dropWhile P (rev (dropWhile P s)))) = rev (dropWhile P (rev (dropWhile P s)))"
proof (cases "dropWhile P s")
  case Nil show ?thesis unfolding Nil by simp
next
  case (Cons a as)
  then have na: "\<not> P a" using hd_dropWhile[of P s] by auto
  have ne: "dropWhile P (rev (a # as)) \<noteq> []" using na by (auto simp: dropWhile_eq_Nil_conv)
  have "last (dropWhile P (rev as @ [a])) = a"
    using na by (simp add: dropWhile_append3 dropWhile_append)
  then have "hd (rev (dropWhile P (rev (a # as)))) = a" using ne by (simp add: hd_rev)
  then show ?thesis using na ne Cons
    by (cases "rev (dropWhile P (rev (a # as)))") auto
qed

lemma trim_idem: "trim (trim s) = trim s"
  by (simp add: trim_def dropWhile_rev_dropWhile)

text \<open>
  Claim C6, as the specification states it: the normalizer is idempotent on every source
  text. It is not. The text made of a slash, a line feed and a slash holds no comment: the
  scanner reads the first slash as the start of a regular expression, which the line feed
  ends, and the second slash as the start of another. The normalizer then deletes the line
  feed, and the normalized text is \<open>//\<close>. Normalizing \<open>//\<close> again reads it as a line comment
  and gives the empty text.
\<close>

theorem cleanCode_not_idempotent:
  "cleanCode (js ''/'' @ [0x000A] @ js ''/'') = js ''//''
   \<and> cleanCode (js ''//'') = []
   \<and> cleanCode (cleanCode (js ''/'' @ [0x000A] @ js ''/'')) \<noteq> cleanCode (js ''/'' @ [0x000A] @ js ''/'')"
  by (simp add: cleanCode_def scan_defs trim_def isSpace_def Let_def)

text \<open>
  Claim C6, amended: normalizing a source text \<open>s\<close> twice gives the same as normalizing it
  once exactly when the comment remover leaves the normalized text of \<open>s\<close> as it is, that is,
  when the scanner finds no comment in it. (The first pass has already deleted every line
  feed and trimmed the text, and a pass that removes a comment makes the text shorter.)
\<close>

theorem cleanCode_idempotent_iff:
  "cleanCode (cleanCode s) = cleanCode s \<longleftrightarrow> removeCodeComments (cleanCode s) = cleanCode s"
proof
  assume a: "removeCodeComments (cleanCode s) = cleanCode s"
  have "0x000A \<notin> set (cleanCode s)"
    using set_trim[of "replace_newline_indent (removeCodeComments s)"]
      replace_newline_indent_set[of "removeCodeComments s"]
    by (auto simp: cleanCode_def)
  then have "replace_newline_indent (cleanCode s) = cleanCode s" by (rule replace_newline_indent_id)
  moreover have "trim (cleanCode s) = cleanCode s" by (simp add: cleanCode_def trim_idem)
  ultimately show "cleanCode (cleanCode s) = cleanCode s" using a
    by (simp add: cleanCode_def[of "cleanCode s"])
next
  assume a: "cleanCode (cleanCode s) = cleanCode s"
  define t where "t = cleanCode s"
  have "length t = length (trim (replace_newline_indent (removeCodeComments t)))"
    using a by (simp add: t_def cleanCode_def[of "cleanCode s"])
  also have "\<dots> \<le> length (replace_newline_indent (removeCodeComments t))" by (rule length_trim)
  also have "\<dots> \<le> length (removeCodeComments t)" by (rule length_replace_newline_indent)
  finally have "length t \<le> length (removeCodeComments t)" .
  then have "length (removeCodeComments t) = length t"
    using length_removeCodeComments[of t] by simp
  then show "removeCodeComments (cleanCode s) = cleanCode s"
    unfolding t_def by (rule removeCodeComments_same_length)
qed

text \<open>
  The amended claim at two source texts. In \<open>f(a) { /* add */ return `a//b`; } // end\<close>
  the two comments are stripped by the first pass, and the \<open>//\<close> inside the quoted text is
  no comment for the scanner: the second pass changes nothing. And on the text of the slash,
  the line feed and the slash, where the comment remover changes the normalized text, the
  second pass changes it too.
\<close>

theorem cleanCode_idempotent_iff_witness:
  "cleanCode (js ''f(a) { /* add */ return `a//b`; } // end'') = js ''f(a) {  return `a//b`; }''
   \<and> removeCodeComments (js ''f(a) {  return `a//b`; }'') = js ''f(a) {  return `a//b`; }''
   \<and> cleanCode (cleanCode (js ''f(a) { /* add */ return `a//b`; } // end''))
       = cleanCode (js ''f(a) { /* add */ return `a//b`; } // end'')
   \<and> removeCodeComments (cleanCode (js ''/'' @ [0x000A] @ js ''/'')) \<noteq> cleanCode (js ''/'' @ [0x000A] @ js ''/'')"
proof -
  have e: "cleanCode (js ''f(a) { /* add */ return `a//b`; } // end'') = js ''f(a) {  return `a//b`; }''"
    by (simp add: cleanCode_def scan_defs trim_def isSpace_def Let_def)
  have r: "removeCodeComments (js ''f(a) {  return `a//b`; }'') = js ''f(a) {  return `a//b`; }''"
    by (simp add: scan_defs Let_def)
  have n: "cleanCode (cleanCode (js ''/'' @ [0x000A] @ js ''/'')) \<noteq> cleanCode (js ''/'' @ [0x000A] @ js ''/'')"
    by (simp add: cleanCode_def scan_defs trim_def isSpace_def Let_def)
  from cleanCode_idempotent_iff[of "js ''f(a) { /* add */ return `a//b`; } // end''"] e r
  have 1: "cleanCode (cleanCode (js ''f(a) { /* add */ return `a//b`; } // end''))
       = cleanCode (js ''f(a) { /* add */ return `a//b`; } // end'')" by simp
  from cleanCode_idempotent_iff[of "js ''/'' @ [0x000A] @ js ''/''"] n
  have 2: "removeCodeComments (cleanCode (js ''/'' @ [0x000A] @ js ''/'')) \<noteq> cleanCode (js ''/'' @ [0x000A] @ js ''/'')"
    by blast
  from e r 1 2 show ?thesis by blast
qed

section \<open>Properties of the looks-like-JSON check\<close>

text \<open>
  Claim C7, as the specification states it: the check is truthy if and only if the trimmed
  text starts with one of \<open>[\<close>, \<open>{\<close>, \<open>"\<close> and ends with one of \<open>]\<close>, \<open>}\<close>, \<open>"\<close>. The code
  does not trim: on the text \<open> [1]\<close>, with a space in front, the specification's check holds
  and \<^verbatim>\<open>isJSON\<close> returns \<open>null\<close>.
\<close>

theorem isJSON_does_not_trim:
  "looksLikeJSON_spec (js '' [1]'') \<and> isJSON (js '' [1]'') = None"
  by (simp add: looksLikeJSON_spec_def isJSON_def isJSON_first_def trim_def isSpace_def)

text \<open>
  Claim C7, amended: for every text that does not start with \<open>}\<close>, the check is truthy if
  and only if the text as it is (not trimmed) has at least two code units, starts with one of
  \<open>[\<close>, \<open>{\<close>, \<open>"\<close>, ends with one of \<open>]\<close>, \<open>}\<close>, \<open>"\<close>, and has no line terminator between
  its first and its last code unit.
\<close>

theorem isJSON_iff:
  "\<not> startsWith input (js ''}'') \<Longrightarrow>
   (isJSON input \<noteq> None) =
     (2 \<le> length input
      \<and> (startsWith input (js ''['') \<or> startsWith input (js ''{'') \<or> startsWith input [ch CHR 0x22])
      \<and> (last input = ch CHR '']'' \<or> last input = ch CHR ''}'' \<or> last input = ch CHR 0x22)
      \<and> list_all (\<lambda>d. \<not> isLineTerminator d) (butlast (tl input)))"
proof (cases input)
  case Nil
  then show ?thesis by (simp add: isJSON_def)
next
  case (Cons c rest)
  assume "\<not> startsWith input (js ''}'')"
  then have c: "c \<noteq> ch CHR ''}''" using Cons by (simp add: startsWith_def)
  show ?thesis
  proof (cases rest)
    case Nil
    then show ?thesis using Cons by (simp add: isJSON_def)
  next
    case (Cons d ds)
    then have "2 \<le> length input" "last input = last rest" "rest \<noteq> []"
      using \<open>input = c # rest\<close> by simp_all
    then show ?thesis using \<open>input = c # rest\<close> c
      by (auto simp: isJSON_def startsWith_def isJSON_first_def isJSON_last_def)
  qed
qed

text \<open>The amended claim at the text \<open>[1, 2]\<close>, which the check accepts.\<close>

theorem isJSON_iff_witness:
  "\<not> startsWith (js ''[1, 2]'') (js ''}'') \<and> isJSON (js ''[1, 2]'') \<noteq> None"
proof -
  have h: "\<not> startsWith (js ''[1, 2]'') (js ''}'')" by (simp add: startsWith_def)
  from isJSON_iff[OF h] h show ?thesis by (simp add: startsWith_def isLineTerminator_def)
qed

section \<open>Extended values\<close>

text \<open>
  Encoding and decoding of an object \<open>{k: x}\<close> with one member: when \<^verbatim>\<open>replace\<close> turns the
  member into the string \<open>s\<close>, and \<^verbatim>\<open>revive\<close> turns \<open>s\<close> into \<open>y\<close>, the decoded object holds
  \<open>y\<close> under \<open>k\<close>.
\<close>

lemma member_size: "\<exists>n. size (JObj [(k, JStr s)]) = Suc n"
  by simp

lemma stringify_member:
  assumes "k \<noteq> []"
    and "replace_value 10 k (toJSON (h @ [object_literal [(k, x)]]) x)
           (h @ [object_literal [(k, x)]], \<lparr>objects = [(js ''root'', VRef (length h))], stack = [], keys = [js ''root'']\<rparr>)
         = (VStr s, h @ [object_literal [(k, x)]], st')"
  shows "stringify (VRef (length h)) None (h @ [object_literal [(k, x)]])
         = Some (Inr (Some (JObj [(k, JStr s)])), h @ [object_literal [(k, x)]])"
  using assms
  by (simp add: stringify_def stringify_run_def replace_def Get_def toJSON_def kindOf_def
       object_literal_def isCallable_def ownKeys_def json_of_members_def getProp_def)

lemma Internalize_leaf:
  "(\<And>a. v \<noteq> VRef a) \<Longrightarrow> Get h holder name = v \<Longrightarrow>
   InternalizeJSONProperty H (Suc n) holder name (h, st) = Some (revive H holder name v (h, st))"
  by (cases v) (auto simp: Let_def)

lemma revive_no_instance:
  "key \<noteq> js ''_constructor-name_'' \<Longrightarrow> key \<noteq> [] \<Longrightarrow>
   revive H this key (VStr s) (h, st) = revive_string H this key s (h, st)"
  by (simp add: revive_def isObject_def)

lemma revive_root_object:
  "\<not> truthy (getProp h (VRef a) (js ''_constructor-name_'')) \<Longrightarrow>
   revive H this [] (VRef a) (h, vstate_init) = Inr (VRef a, h, vstate_init\<lparr>root := VRef a\<rparr>)"
  by (simp add: revive_def vstate_init_def)

lemma parse_member:
  assumes k: "k \<noteq> []" "k \<noteq> js ''_constructor-name_''"
    and r: "revive_string H (Holder (length h)) k s (h @ [object_literal [(k, VStr s)]], vstate_init) = Inr (y, h', vstate_init)"
    and h': "take (Suc (length h)) h' = h @ [object_literal [(k, VStr s)]]"
  shows "parse H (Some (JObj [(k, JStr s)])) h
     = Some (Inr (VRef (length h), if y = VUndefined then deleteProp h' (length h) k else setProp h' (length h) k y))"
proof -
  obtain n where n: "size (JObj [(k, JStr s)]) = Suc n" using member_size by blast
  let ?h1 = "h @ [object_literal [(k, VStr s)]]"
  let ?h2 = "if y = VUndefined then deleteProp h' (length h) k else setProp h' (length h) k y"
  have a: "alloc (JObj [(k, JStr s)]) h = (VRef (length h), ?h1)"
    by (simp add: object_literal_def)
  have g: "Get ?h1 (Holder (length h)) k = VStr s"
    by (simp add: Get_def getProp_def object_literal_def)
  have i: "InternalizeJSONProperty H (Suc n) (Holder (length h)) k (?h1, vstate_init) = Some (Inr (y, h', vstate_init))"
    using Internalize_leaf[OF _ g, of H n vstate_init] revive_no_instance[OF k(2,1), of H "Holder (length h)" s ?h1 vstate_init] r
    by simp
  have "length (take (Suc (length h)) h') = Suc (length h)" unfolding h' by simp
  then have len: "length h < length h'" by simp
  have "take (Suc (length h)) h' ! length h = object_literal [(k, VStr s)]" unfolding h' by simp
  then have nth: "h' ! length h = object_literal [(k, VStr s)]" by simp
  have na: "\<not> isArray h' (VRef (length h))"
    using len nth by (simp add: isArray_def kindOf_def lookup_def object_literal_def)
  have ps: "InternalizeJSONProperties H (Suc n) (length h) [k] (?h1, vstate_init) = Some (Inr (?h2, vstate_init))"
    using i na by simp
  have "getProp h' (VRef (length h)) (js ''_constructor-name_'') = VUndefined"
    using len nth k(2) by (simp add: getProp_def lookup_def object_literal_def)
  then have ni: "\<not> truthy (getProp ?h2 (VRef (length h)) (js ''_constructor-name_''))"
    using len k(2) by (simp add: getProp_setProp getProp_deleteProp)
  have "InternalizeJSONProperty H (Suc (Suc n)) (Wrapper (VRef (length h))) [] (?h1, vstate_init)
      = Some (Inr (VRef (length h), ?h2, vstate_init\<lparr>root := VRef (length h)\<rparr>))"
    using ps revive_root_object[OF ni, of H "Wrapper (VRef (length h))"]
    by (simp add: Get_def Let_def ownKeys_def object_literal_def)
  then show ?thesis using a n by (simp add: parse_def)
qed


lemma decoded_member_eq:
  assumes k: "k \<noteq> []" "k \<noteq> js ''_constructor-name_''"
    and e: "replace_value 10 k (toJSON (h @ [object_literal [(k, x)]]) x)
           (h @ [object_literal [(k, x)]], \<lparr>objects = [(js ''root'', VRef (length h))], stack = [], keys = [js ''root'']\<rparr>)
         = (VStr s, h @ [object_literal [(k, x)]], st')"
    and r: "revive_string H (Holder (Suc (length h))) k s
              (h @ [object_literal [(k, x)], object_literal [(k, VStr s)]], vstate_init) = Inr (y, h', vstate_init)"
    and h': "take (Suc (Suc (length h))) h' = h @ [object_literal [(k, x)], object_literal [(k, VStr s)]]"
  shows "decoded_member H k x h = Some (Inr (y, kindOf h' y))"
proof -
  let ?h1 = "h @ [object_literal [(k, x)]]"
  have l: "length ?h1 = Suc (length h)" by simp
  have p: "parse H (Some (JObj [(k, JStr s)])) ?h1
     = Some (Inr (VRef (length ?h1), if y = VUndefined then deleteProp h' (length ?h1) k else setProp h' (length ?h1) k y))"
    by (rule parse_member[OF k]) (use r h' in simp_all)
  have "length (take (Suc (Suc (length h))) h') = Suc (Suc (length h))" unfolding h' by simp
  then have len: "Suc (length h) < length h'" by simp
  show ?thesis
    unfolding decoded_member_def roundtrip_def stringify_member[OF k(1) e] 
    using p len by (simp add: getProp_setProp getProp_deleteProp)
qed

lemma isDigit_digit [simp]: "isDigit (digit m)"
proof -
  have "m mod 10 = 0 \<or> m mod 10 = 1 \<or> m mod 10 = 2 \<or> m mod 10 = 3 \<or> m mod 10 = 4
    \<or> m mod 10 = 5 \<or> m mod 10 = 6 \<or> m mod 10 = 7 \<or> m mod 10 = 8 \<or> m mod 10 = 9"
    by arith
  then show ?thesis by (elim disjE) (simp_all add: isDigit_def digit_def)
qed

lemma dateFormat_toISOString:
  "0 \<le> year d \<Longrightarrow> year d \<le> 9999 \<Longrightarrow> dateFormat_test (toISOString d)"
  by (simp add: dateFormat_test_def toISOString_def pad2_def pad3_def pad4_def)

lemma slice_symbol [simp]: "slice (symbol_toString (Some d)) 7 (- 1) = d"
  by (simp add: slice_def symbol_toString_def)

lemma match_tagged_eq:
  "ch CHR ''|'' \<notin> set a \<Longrightarrow> \<not> list_ex isLineTerminator b \<Longrightarrow>
   match_tagged tag (tag @ a @ ch CHR ''|'' # b) = Some (a, b)"
proof -
  assume a: "ch CHR ''|'' \<notin> set a" and b: "\<not> list_ex isLineTerminator b"
  have 1: "takeWhile (\<lambda>c. c \<noteq> ch CHR ''|'') (a @ ch CHR ''|'' # b) = a"
    using a by (auto simp: takeWhile_tail)
  have 2: "dropWhile (\<lambda>c. c \<noteq> ch CHR ''|'') (a @ ch CHR ''|'' # b) = ch CHR ''|'' # b"
    using a by (auto simp: dropWhile_append3)
  have 3: "takeWhile (\<lambda>c. \<not> isLineTerminator c) b = b"
    using b by (simp add: list_ex_iff)
  show ?thesis using a 1 2 3 by (simp add: match_tagged_def)
qed

lemma decoded_primitive:
  assumes k: "k \<noteq> []" "k \<noteq> js ''_constructor-name_''"
  shows "decoded_member H k VUndefined h = Some (Inr (VUndefined, None))"
    and "decoded_member H k (VNum NaN) h = Some (Inr (VNum NaN, None))"
    and "decoded_member H k (VNum PosInfinity) h = Some (Inr (VNum PosInfinity, None))"
    and "decoded_member H k (VNum NegInfinity) h = Some (Inr (VNum NegInfinity, None))"
proof -
  show "decoded_member H k VUndefined h = Some (Inr (VUndefined, None))"
    using decoded_member_eq[OF k, of h VUndefined "js ''_undefined_''" _ H VUndefined]
    by (simp add: replace_value_def toJSON_def isRegExp_def isFunction_def revive_string_def startsWith_def)
  show "decoded_member H k (VNum NaN) h = Some (Inr (VNum NaN, None))"
    using decoded_member_eq[OF k, of h "VNum NaN" "js ''_NaN_''" _ H "VNum NaN"]
    by (simp add: replace_value_def toJSON_def isRegExp_def isFunction_def revive_string_def startsWith_def)
  show "decoded_member H k (VNum PosInfinity) h = Some (Inr (VNum PosInfinity, None))"
    using decoded_member_eq[OF k, of h "VNum PosInfinity" "js ''_Infinity_''" _ H "VNum PosInfinity"]
    by (simp add: replace_value_def toJSON_def isRegExp_def isFunction_def revive_string_def startsWith_def)
  show "decoded_member H k (VNum NegInfinity) h = Some (Inr (VNum NegInfinity, None))"
    using decoded_member_eq[OF k, of h "VNum NegInfinity" "js ''_-Infinity_''" _ H "VNum NegInfinity"]
    by (simp add: replace_value_def toJSON_def isRegExp_def isFunction_def revive_string_def startsWith_def)
qed

lemma decoded_symbol:
  assumes k: "k \<noteq> []" "k \<noteq> js ''_constructor-name_''"
  shows "decoded_member H k (VSym (Some d)) h = Some (Inr (VSym (Some d), None))"
  using decoded_member_eq[OF k, of h "VSym (Some d)" "js ''_symbol_'' @ d" _ H "VSym (Some d)"]
  by (simp add: replace_value_def toJSON_def isRegExp_def isFunction_def revive_string_def startsWith_def)

lemma decoded_regexp:
  assumes k: "k \<noteq> []" "k \<noteq> js ''_constructor-name_''"
    and ob: "lookup h a = Some ob" "kind ob = KRegExp source flags"
    and wf: "ch CHR ''|'' \<notin> set flags" "\<not> list_ex isLineTerminator source"
    and H: "RegExp_new H source flags = Some (source, flags)"
  shows "map_option (map_sum id snd) (decoded_member H k (VRef a) h) = Some (Inr (Some (KRegExp source flags)))"
proof -
  from ob have a: "a < length h" "h ! a = ob" by (auto dest: lookup_Some_less)
  let ?s = "js ''_regexp_'' @ flags @ ch CHR ''|'' # source"
  let ?h2 = "h @ [object_literal [(k, VRef a)], object_literal [(k, VStr ?s)]]"
  let ?new = "\<lparr>kind = KRegExp source flags, ctor = Some (js ''RegExp''), props = [], integrity = Extensible\<rparr>"
  have e: "replace_value 10 k (toJSON (h @ [object_literal [(k, VRef a)]]) (VRef a))
           (h @ [object_literal [(k, VRef a)]], \<lparr>objects = [(js ''root'', VRef (length h))], stack = [], keys = [js ''root'']\<rparr>)
         = (VStr ?s, h @ [object_literal [(k, VRef a)]], \<lparr>objects = [(js ''root'', VRef (length h))], stack = [], keys = [js ''root'']\<rparr>)"
    using a ob by (simp add: replace_value_def toJSON_def isRegExp_def kindOf_def)
  have m: "match_tagged (js ''_regexp_'') ?s = Some (flags, source)"
    using match_tagged_eq[OF wf, of "js ''_regexp_''"] by simp
  have r: "revive_string H (Holder (Suc (length h))) k ?s (?h2, vstate_init)
         = Inr (VRef (Suc (Suc (length h))), ?h2 @ [?new], vstate_init)"
    using m H by (simp add: revive_string_def startsWith_def new_object_def)
  have "decoded_member H k (VRef a) h = Some (Inr (VRef (Suc (Suc (length h))), kindOf (?h2 @ [?new]) (VRef (Suc (Suc (length h))))))"
    by (rule decoded_member_eq[OF k e r]) simp
  then show ?thesis by (simp add: kindOf_def lookup_def nth_append)
qed

lemma decoded_date:
  assumes k: "k \<noteq> []" "k \<noteq> js ''_constructor-name_''"
    and ob: "lookup h a = Some ob" "kind ob = KDate (Some d)"
    and y: "0 \<le> year d" "year d \<le> 9999"
    and H: "Date_new H (toISOString d) = Some d"
  shows "map_option (map_sum id snd) (decoded_member H k (VRef a) h) = Some (Inr (Some (KDate (Some d))))"
proof -
  from ob have a: "a < length h" "h ! a = ob" by (auto dest: lookup_Some_less)
  let ?s = "js ''_date_'' @ toISOString d"
  let ?h2 = "h @ [object_literal [(k, VRef a)], object_literal [(k, VStr ?s)]]"
  let ?new = "\<lparr>kind = KDate (Some d), ctor = Some (js ''Date''), props = [], integrity = Extensible\<rparr>"
  have e: "replace_value 10 k (toJSON (h @ [object_literal [(k, VRef a)]]) (VRef a))
           (h @ [object_literal [(k, VRef a)]], \<lparr>objects = [(js ''root'', VRef (length h))], stack = [], keys = [js ''root'']\<rparr>)
         = (VStr ?s, h @ [object_literal [(k, VRef a)]], \<lparr>objects = [(js ''root'', VRef (length h))], stack = [], keys = [js ''root'']\<rparr>)"
    using a ob dateFormat_toISOString[OF y]
    by (simp add: replace_value_def toJSON_def isRegExp_def isFunction_def kindOf_def)
  have r: "revive_string H (Holder (Suc (length h))) k ?s (?h2, vstate_init)
         = Inr (VRef (Suc (Suc (length h))), ?h2 @ [?new], vstate_init)"
    using H by (simp add: revive_string_def startsWith_def new_object_def)
  have "decoded_member H k (VRef a) h = Some (Inr (VRef (Suc (Suc (length h))), kindOf (?h2 @ [?new]) (VRef (Suc (Suc (length h))))))"
    by (rule decoded_member_eq[OF k e r]) simp
  then show ?thesis by (simp add: kindOf_def lookup_def nth_append)
qed

lemma iso12000: "toISOString \<lparr>year = 12000, month = 1, day = 1, hours = 0, minutes = 0, seconds = 0, milliseconds = 0\<rparr>
   = js ''+012000-01-01T00:00:00.000Z''"
  by (simp add: toISOString_def pad2_def pad3_def pad6_def digit_def)

lemma far_date_member:
  "decoded_member H (js ''d'') (VRef 0)
      [\<lparr>kind = KDate (Some \<lparr>year = 12000, month = 1, day = 1, hours = 0, minutes = 0, seconds = 0, milliseconds = 0\<rparr>),
         ctor = Some (js ''Date''), props = [], integrity = Extensible\<rparr>]
     = Some (Inr (VStr (js ''+012000-01-01T00:00:00.000Z''), None))"
proof -
  let ?d = "\<lparr>kind = KDate (Some \<lparr>year = 12000, month = 1, day = 1, hours = 0, minutes = 0, seconds = 0, milliseconds = 0\<rparr>),
         ctor = Some (js ''Date''), props = [], integrity = Extensible\<rparr>"
  have k: "js ''d'' \<noteq> []" "js ''d'' \<noteq> js ''_constructor-name_''" by simp_all
  have "decoded_member H (js ''d'') (VRef 0) [?d]
     = Some (Inr (VStr (js ''+012000-01-01T00:00:00.000Z''),
          kindOf ([?d] @ [object_literal [(js ''d'', VRef 0)], object_literal [(js ''d'', VStr (js ''+012000-01-01T00:00:00.000Z''))]])
            (VStr (js ''+012000-01-01T00:00:00.000Z''))))"
    by (rule decoded_member_eq[OF k, where st' = "\<lparr>objects = [(js ''root'', VRef (length [?d]))], stack = [], keys = [js ''root'']\<rparr>"])
       (simp_all add: replace_value_def toJSON_def kindOf_def lookup_def isRegExp_def isFunction_def iso12000[simplified]
         dateFormat_test_def isDigit_def revive_string_def startsWith_def)
  then show ?thesis by simp
qed

text \<open>
  Claim C4, as the specification states it: each extended value \<open>x\<close> survives
  \<open>decode(encode(x))\<close>. Passed to \<^verbatim>\<open>stringify\<close> itself, \<open>NaN\<close> takes the root call of
  \<^verbatim>\<open>replace\<close>, which returns it untagged; \<open>JSON.stringify\<close> writes it as \<open>null\<close>, and
  \<^verbatim>\<open>parse\<close> returns \<open>null\<close>. And a date of the year 12000, stored in an object under the key
  \<open>d\<close>, has the ISO text \<open>+012000-01-01T00:00:00.000Z\<close>, which \<^verbatim>\<open>dateFormat\<close> does not
  match: it is not tagged, and the decoded object holds that string, not a date.
\<close>

theorem extended_values_lost:
  "(\<forall>H. roundtrip H (VNum NaN) None [] = Some (Inr (VNull, [])))
   \<and> (\<forall>H. decoded_member H (js ''d'') (VRef 0)
      [\<lparr>kind = KDate (Some \<lparr>year = 12000, month = 1, day = 1, hours = 0, minutes = 0, seconds = 0, milliseconds = 0\<rparr>),
         ctor = Some (js ''Date''), props = [], integrity = Extensible\<rparr>]
     = Some (Inr (VStr (js ''+012000-01-01T00:00:00.000Z''), None)))"
proof (intro conjI allI)
  show "roundtrip H (VNum NaN) None [] = Some (Inr (VNull, []))" for H by code_simp
  show "decoded_member H (js ''d'') (VRef 0)
      [\<lparr>kind = KDate (Some \<lparr>year = 12000, month = 1, day = 1, hours = 0, minutes = 0, seconds = 0, milliseconds = 0\<rparr>),
         ctor = Some (js ''Date''), props = [], integrity = Extensible\<rparr>]
     = Some (Inr (VStr (js ''+012000-01-01T00:00:00.000Z''), None))" for H
    by (rule far_date_member)
qed

text \<open>
  Claim C4, amended: each extended value \<open>x\<close> survives encoding and decoding as the only
  member of a new object \<open>{k: x}\<close>, under a key \<open>k\<close> other than the empty key and
  \<open>_constructor-name_\<close>: the decoded object holds under \<open>k\<close> the value \<open>undefined\<close>, \<open>NaN\<close>,
  \<open>Infinity\<close> or \<open>-Infinity\<close> itself (for \<open>undefined\<close> the key is deleted, and reads as
  \<open>undefined\<close>), for a symbol with a description a symbol with that description, for a regular
  expression a regular expression with the same source and flags, and for a valid date whose
  UTC year is in 0 to 9999 a date with the same time value. For the regular expression this
  holds when its flags hold no \<open>|\<close> and its source no line terminator, as it is with every
  regular expression the host makes, and when the host's \<open>RegExp\<close> builds from this source and
  these flags a regular expression with the same source and flags; for the date, when the
  host's \<open>Date\<close> reads the ISO text of the date back as the same time value.
\<close>

theorem extended_values_survive_as_members:
  "k \<noteq> [] \<Longrightarrow> k \<noteq> js ''_constructor-name_'' \<Longrightarrow>
     decoded_member H k VUndefined h = Some (Inr (VUndefined, None))
   \<and> decoded_member H k (VNum NaN) h = Some (Inr (VNum NaN, None))
   \<and> decoded_member H k (VNum PosInfinity) h = Some (Inr (VNum PosInfinity, None))
   \<and> decoded_member H k (VNum NegInfinity) h = Some (Inr (VNum NegInfinity, None))
   \<and> decoded_member H k (VSym (Some desc)) h = Some (Inr (VSym (Some desc), None))
   \<and> (lookup h r = Some rob \<and> kind rob = KRegExp source flags
        \<and> ch CHR ''|'' \<notin> set flags \<and> \<not> list_ex isLineTerminator source
        \<and> RegExp_new H source flags = Some (source, flags)
        \<longrightarrow> map_option (map_sum id snd) (decoded_member H k (VRef r) h)
             = Some (Inr (Some (KRegExp source flags))))
   \<and> (lookup h t = Some tob \<and> kind tob = KDate (Some d) \<and> 0 \<le> year d \<and> year d \<le> 9999
        \<and> Date_new H (toISOString d) = Some d
        \<longrightarrow> map_option (map_sum id snd) (decoded_member H k (VRef t) h)
             = Some (Inr (Some (KDate (Some d)))))"
  using decoded_primitive[of k H h] decoded_symbol[of k H desc h]
    decoded_regexp[of k h r rob source flags H] decoded_date[of k h t tob d H]
  by blast

text \<open>
  The amended claim at the key \<open>x\<close>, in a heap with the regular expression \<open>/a+/gi\<close> and
  the date 2020-01-02T03:04:05.678Z, with the host of the examples.
\<close>

theorem extended_values_survive_as_members_witness:
  "js ''x'' \<noteq> [] \<and> js ''x'' \<noteq> js ''_constructor-name_''
   \<and> decoded_member host_example (js ''x'') VUndefined
        [\<lparr>kind = KRegExp (js ''a+'') (js ''gi''), ctor = Some (js ''RegExp''), props = [], integrity = Extensible\<rparr>,
         \<lparr>kind = KDate (Some date_example), ctor = Some (js ''Date''), props = [], integrity = Extensible\<rparr>]
      = Some (Inr (VUndefined, None))
   \<and> decoded_member host_example (js ''x'') (VNum NaN)
        [\<lparr>kind = KRegExp (js ''a+'') (js ''gi''), ctor = Some (js ''RegExp''), props = [], integrity = Extensible\<rparr>,
         \<lparr>kind = KDate (Some date_example), ctor = Some (js ''Date''), props = [], integrity = Extensible\<rparr>]
      = Some (Inr (VNum NaN, None))
   \<and> map_option (map_sum id snd) (decoded_member host_example (js ''x'') (VRef 0)
        [\<lparr>kind = KRegExp (js ''a+'') (js ''gi''), ctor = Some (js ''RegExp''), props = [], integrity = Extensible\<rparr>,
         \<lparr>kind = KDate (Some date_example), ctor = Some (js ''Date''), props = [], integrity = Extensible\<rparr>])
      = Some (Inr (Some (KRegExp (js ''a+'') (js ''gi''))))
   \<and> map_option (map_sum id snd) (decoded_member host_example (js ''x'') (VRef 1)
        [\<lparr>kind = KRegExp (js ''a+'') (js ''gi''), ctor = Some (js ''RegExp''), props = [], integrity = Extensible\<rparr>,
         \<lparr>kind = KDate (Some date_example), ctor = Some (js ''Date''), props = [], integrity = Extensible\<rparr>])
      = Some (Inr (Some (KDate (Some date_example))))"
proof -
  let ?r = "\<lparr>kind = KRegExp (js ''a+'') (js ''gi''), ctor = Some (js ''RegExp''), props = [], integrity = Extensible\<rparr>"
  let ?t = "\<lparr>kind = KDate (Some date_example), ctor = Some (js ''Date''), props = [], integrity = Extensible\<rparr>"
  have k: "js ''x'' \<noteq> []" "js ''x'' \<noteq> js ''_constructor-name_''" by simp_all
  have r: "lookup [?r, ?t] 0 = Some ?r \<and> kind ?r = KRegExp (js ''a+'') (js ''gi'')
        \<and> ch CHR ''|'' \<notin> set (js ''gi'') \<and> \<not> list_ex isLineTerminator (js ''a+'')
        \<and> RegExp_new host_example (js ''a+'') (js ''gi'') = Some (js ''a+'', js ''gi'')"
    by (simp add: lookup_def host_example_def isLineTerminator_def)
  have t: "lookup [?r, ?t] 1 = Some ?t \<and> kind ?t = KDate (Some date_example)
        \<and> 0 \<le> year date_example \<and> year date_example \<le> 9999
        \<and> Date_new host_example (toISOString date_example) = Some date_example"
    by (simp add: lookup_def host_example_def date_example_def toISOString_def pad2_def pad3_def pad4_def
        digit_def)
  from extended_values_survive_as_members[OF k, of host_example "[?r, ?t]" _ 0 ?r "js ''a+''" "js ''gi''" 1 ?t date_example]
    k r t
  show ?thesis by blast
qed

section \<open>The root call of the encoder\<close>

text \<open>
  Claim C10: on the root call (the key is the empty string) \<^verbatim>\<open>replace\<close> returns the value
  as it is, whatever its kind, and only resets its variables. So \<^verbatim>\<open>stringify\<close> of
  \<open>undefined\<close> and of a function gives no text, and \<^verbatim>\<open>stringify\<close> of a regular expression
  (which has no enumerable property of its own) gives the text of an empty object.
\<close>

theorem root_call_returns_value_untagged:
  "replace depth this [] v (h, st)
     = (v, h, \<lparr>objects = [(js ''root'', v)], stack = [], keys = [js ''root'']\<rparr>)
   \<and> stringify VUndefined maxDepth h = Some (Inr None, h)
   \<and> (isFunction h (VRef a) \<longrightarrow> stringify (VRef a) maxDepth h = Some (Inr None, h))
   \<and> (lookup h a = Some ob \<and> kind ob = KRegExp source flags \<and> props ob = []
        \<longrightarrow> stringify (VRef a) maxDepth h = Some (Inr (Some (JObj [])), h))"
proof (intro conjI impI)
  show "replace depth this [] v (h, st)
     = (v, h, \<lparr>objects = [(js ''root'', v)], stack = [], keys = [js ''root'']\<rparr>)"
    by (simp add: replace_def)
  show "stringify VUndefined maxDepth h = Some (Inr None, h)"
    by (simp add: stringify_def stringify_run_def replace_def Get_def toJSON_def)
  show "stringify (VRef a) maxDepth h = Some (Inr None, h)" if "isFunction h (VRef a)"
    using that
    by (auto simp add: stringify_def stringify_run_def replace_def Get_def toJSON_def kindOf_def isFunction_def isCallable_def
        split: option.splits kind.splits)
  show "stringify (VRef a) maxDepth h = Some (Inr (Some (JObj [])), h)"
    if "lookup h a = Some ob \<and> kind ob = KRegExp source flags \<and> props ob = []"
    using that
    by (simp add: stringify_def stringify_run_def replace_def Get_def toJSON_def kindOf_def isCallable_def ownKeys_def
        json_of_members_def)
qed

text \<open>The claim in a heap with the function \<open>function f() {}\<close> and the regular expression \<open>/a+/g\<close>.\<close>

theorem root_call_returns_value_untagged_witness:
  "isFunction [\<lparr>kind = KFunction (js ''f'') (js ''function f() {}''), ctor = Some (js ''Function''), props = [], integrity = Extensible\<rparr>,
               \<lparr>kind = KRegExp (js ''a+'') (js ''g''), ctor = Some (js ''RegExp''), props = [], integrity = Extensible\<rparr>] (VRef 0)
   \<and> stringify (VRef 0) None
        [\<lparr>kind = KFunction (js ''f'') (js ''function f() {}''), ctor = Some (js ''Function''), props = [], integrity = Extensible\<rparr>,
         \<lparr>kind = KRegExp (js ''a+'') (js ''g''), ctor = Some (js ''RegExp''), props = [], integrity = Extensible\<rparr>]
      = Some (Inr None,
        [\<lparr>kind = KFunction (js ''f'') (js ''function f() {}''), ctor = Some (js ''Function''), props = [], integrity = Extensible\<rparr>,
         \<lparr>kind = KRegExp (js ''a+'') (js ''g''), ctor = Some (js ''RegExp''), props = [], integrity = Extensible\<rparr>])
   \<and> stringify (VRef 1) None
        [\<lparr>kind = KFunction (js ''f'') (js ''function f() {}''), ctor = Some (js ''Function''), props = [], integrity = Extensible\<rparr>,
         \<lparr>kind = KRegExp (js ''a+'') (js ''g''), ctor = Some (js ''RegExp''), props = [], integrity = Extensible\<rparr>]
      = Some (Inr (Some (JObj [])),
        [\<lparr>kind = KFunction (js ''f'') (js ''function f() {}''), ctor = Some (js ''Function''), props = [], integrity = Extensible\<rparr>,
         \<lparr>kind = KRegExp (js ''a+'') (js ''g''), ctor = Some (js ''RegExp''), props = [], integrity = Extensible\<rparr>])"
proof -
  let ?f = "\<lparr>kind = KFunction (js ''f'') (js ''function f() {}''), ctor = Some (js ''Function''), props = [], integrity = Extensible\<rparr>"
  let ?r = "\<lparr>kind = KRegExp (js ''a+'') (js ''g''), ctor = Some (js ''RegExp''), props = [], integrity = Extensible\<rparr>"
  have f: "isFunction [?f, ?r] (VRef 0)" by (simp add: isFunction_def kindOf_def lookup_def)
  have r: "lookup [?f, ?r] 1 = Some ?r \<and> kind ?r = KRegExp (js ''a+'') (js ''g'') \<and> props ?r = []"
    by (simp add: lookup_def)
  from root_call_returns_value_untagged[of _ _ _ "[?f, ?r]" _ None 0] f
  have 1: "stringify (VRef 0) None [?f, ?r] = Some (Inr None, [?f, ?r])" by blast
  from root_call_returns_value_untagged[of _ _ _ "[?f, ?r]" _ None 1 ?r "js ''a+''" "js ''g''"] r
  have 2: "stringify (VRef 1) None [?f, ?r] = Some (Inr (Some (JObj [])), [?f, ?r])" by blast
  from f 1 2 show ?thesis by blast
qed

section \<open>The literal tags of the decoder\<close>

text \<open>
  Claim C9, as the specification states it: a string that is exactly \<open>_undefined_\<close>,
  \<open>_-Infinity_\<close>, \<open>_Infinity_\<close> or \<open>_NaN_\<close> is decoded to its sentinel unconditionally. Line
  183 comes first: under the key \<open>_constructor-name_\<close> \<^verbatim>\<open>revive\<close> returns every value as it
  is, so there the string \<open>_NaN_\<close> stays a string.
\<close>

theorem literal_under_constructor_name_key_kept:
  "\<forall>H this h st. revive H this (js ''_constructor-name_'') (VStr (js ''_NaN_'')) (h, st)
      = Inr (VStr (js ''_NaN_''), h, st)"
  by (simp add: revive_def)

text \<open>
  Claim C9, amended: under every key other than \<open>_constructor-name_\<close>, a string that is
  exactly one of the four literals is decoded to its sentinel, and no error is raised.
\<close>

theorem literal_tags_decoded:
  "key \<noteq> js ''_constructor-name_'' \<Longrightarrow>
    map_sum id fst (revive H this key (VStr (js ''_undefined_'')) hs) = Inr VUndefined
  \<and> map_sum id fst (revive H this key (VStr (js ''_-Infinity_'')) hs) = Inr (VNum NegInfinity)
  \<and> map_sum id fst (revive H this key (VStr (js ''_Infinity_'')) hs) = Inr (VNum PosInfinity)
  \<and> map_sum id fst (revive H this key (VStr (js ''_NaN_'')) hs) = Inr (VNum NaN)"
  by (cases hs) (simp add: revive_def revive_string_def isObject_def startsWith_def Let_def)

text \<open>The amended claim at the key \<open>n\<close> of the object \<open>{n: "_NaN_"}\<close>.\<close>

theorem literal_tags_decoded_witness:
  "js ''n'' \<noteq> js ''_constructor-name_''
   \<and> map_sum id fst (revive host_example (Holder 0) (js ''n'') (VStr (js ''_NaN_''))
        ([object_literal [(js ''n'', VStr (js ''_NaN_''))]], vstate_init)) = Inr (VNum NaN)"
proof -
  have k: "js ''n'' \<noteq> js ''_constructor-name_''" by simp
  from literal_tags_decoded[OF k] k show ?thesis by blast
qed

section \<open>Duplicate markers whose path does not resolve\<close>

lemma parse_duplicate_member:
  assumes k: "key \<noteq> []" "key \<noteq> js ''_constructor-name_''"
  shows "parse H (Some (JObj [(key, JStr (js ''_duplicate_'' @ path))])) h
       = Some (Inr (VRef (length h),
           h @ [object_literal [(key,
             if path = js ''root'' then VRef (length h)
             else get H (h @ [object_literal [(key, VNull)]]) (VRef (length h))
                    (remove_first (js ''root.'') path))]]))"
proof -
  let ?m = "js ''_duplicate_'' @ path"
  let ?a = "length h"
  let ?h1 = "h @ [object_literal [(key, VStr ?m)]]"
  let ?h2 = "h @ [object_literal [(key, VNull)]]"
  let ?r = "\<lparr>target = key, container = Holder ?a, replacement = path\<rparr>"
  let ?st = "vstate_init\<lparr>refs := [?r]\<rparr>"
  let ?x = "if path = js ''root'' then VRef ?a else get H ?h2 (VRef ?a) (remove_first (js ''root.'') path)"
  obtain n where n: "size (JObj [(key, JStr ?m)]) = Suc n" using member_size by blast
  have al: "alloc (JObj [(key, JStr ?m)]) h = (VRef ?a, ?h1)"
    by (simp add: object_literal_def)
  have g: "Get ?h1 (Holder ?a) key = VStr ?m"
    by (simp add: Get_def getProp_def object_literal_def)
  have child: "revive H (Holder ?a) key (VStr ?m) (?h1, vstate_init) = Inr (VNull, ?h1, ?st)"
    using k by (simp add: revive_def revive_string_def isObject_def startsWith_def vstate_init_def)
  have i: "InternalizeJSONProperty H (Suc n) (Holder ?a) key (?h1, vstate_init) = Some (Inr (VNull, ?h1, ?st))"
    using Internalize_leaf[OF _ g, of H n vstate_init] child by simp
  have set1: "setProp ?h1 ?a key VNull = ?h2"
    by (simp add: setProp_def object_literal_def)
  have ps: "InternalizeJSONProperties H (Suc n) ?a [key] (?h1, vstate_init) = Some (Inr (?h2, ?st))"
    using i set1 by simp
  have res: "foldl (restore_ref H (VRef ?a)) ?h2 (refs ?st) = h @ [object_literal [(key, ?x)]]"
    by (simp add: restore_ref_def setProp_def object_literal_def)
  have nocn: "getProp (h @ [object_literal [(key, ?x)]]) (VRef ?a) (js ''_constructor-name_'') = VUndefined"
    using k(2) by (simp add: getProp_def object_literal_def)
  have rootcall: "revive H (Wrapper (VRef ?a)) [] (VRef ?a) (?h2, ?st)
      = Inr (VRef ?a, h @ [object_literal [(key, ?x)]], ?st\<lparr>root := VRef ?a\<rparr>)"
    unfolding revive_def Let_def prod.case res using nocn by simp
  have "InternalizeJSONProperty H (Suc (Suc n)) (Wrapper (VRef ?a)) [] (?h1, vstate_init)
      = Some (Inr (VRef ?a, h @ [object_literal [(key, ?x)]], ?st\<lparr>root := VRef ?a\<rparr>))"
    using ps rootcall by (simp add: Get_def Let_def ownKeys_def object_literal_def)
  then show ?thesis using al n by (simp add: parse_def)
qed

text \<open>
  Claim C3, as the specification states it: when the path of a duplicate marker does not
  resolve in the finished root, \<^verbatim>\<open>parse\<close> raises an error that names the path. It does not:
  the text \<open>{"a":"_duplicate_root.nope"}\<close> is parsed without an error, to an object whose
  \<open>a\<close> is what \<open>get\<close> returns for the path \<open>nope\<close> in the object \<open>{a: null}\<close>, which has no
  such property; no answer of \<open>get\<close> makes \<^verbatim>\<open>parse\<close> raise.
\<close>

theorem unresolved_duplicate_completes_normally:
  "\<forall>H. parse H (Some (JObj [(js ''a'', JStr (js ''_duplicate_root.nope''))])) []
     = Some (Inr (VRef 0,
         [object_literal [(js ''a'', get H [object_literal [(js ''a'', VNull)]] (VRef 0) (js ''nope''))]]))"
proof
  fix H
  have k: "js ''a'' \<noteq> []" "js ''a'' \<noteq> js ''_constructor-name_''" by simp_all
  have p: "js ''_duplicate_root.nope'' = js ''_duplicate_'' @ js ''root.nope''" by simp
  show "parse H (Some (JObj [(js ''a'', JStr (js ''_duplicate_root.nope''))])) []
     = Some (Inr (VRef 0,
         [object_literal [(js ''a'', get H [object_literal [(js ''a'', VNull)]] (VRef 0) (js ''nope''))]]))"
    unfolding p parse_duplicate_member[OF k] by (simp add: startsWith_def)
qed

text \<open>
  Claim C3, amended: a duplicate marker whose path does not resolve raises no error. Under a
  key other than the empty key and \<open>_constructor-name_\<close>, \<^verbatim>\<open>revive\<close> answers the marker with
  the placeholder \<open>null\<close> and records the deferred reference. Its root call, on a root that is
  no string and has no truthy \<open>_constructor-name_\<close> once the recorded references are applied,
  applies every recorded reference in turn and returns the root. Applying a reference whose
  path is not \<open>root\<close> and for which \<open>get\<close> returns \<open>undefined\<close> writes \<open>undefined\<close> over the
  placeholder at the target key. And \<^verbatim>\<open>parse\<close> of the text of an object with the marker as
  its only member, under such a key, returns normally for every path: it returns the object
  with, under the key, the object itself when the path is \<open>root\<close>, and otherwise what \<open>get\<close>
  returns for the path without its first \<open>root.\<close>, in the object with the placeholder.
\<close>

theorem unresolved_duplicate_writes_undefined:
  "key \<noteq> [] \<Longrightarrow> key \<noteq> js ''_constructor-name_'' \<Longrightarrow>
     revive H this key (VStr (js ''_duplicate_'' @ path)) (h, st)
       = Inr (VNull, h, st\<lparr>refs := refs st @ [\<lparr>target = key, container = this, replacement = path\<rparr>]\<rparr>)
   \<and> ((\<forall>s. v \<noteq> VStr s)
         \<and> \<not> (isObject (foldl (restore_ref H v) h (refs st)) v
               \<and> truthy (getProp (foldl (restore_ref H v) h (refs st)) v (js ''_constructor-name_'')))
        \<longrightarrow> revive H this [] v (h, st) = Inr (v, foldl (restore_ref H v) h (refs st), st\<lparr>root := v\<rparr>))
   \<and> (a < length h \<and> path \<noteq> js ''root''
         \<and> get H h v (remove_first (js ''root.'') path) = VUndefined
        \<longrightarrow> getProp (restore_ref H v h \<lparr>target = key, container = Holder a, replacement = path\<rparr>) (VRef a) key
             = VUndefined)
   \<and> parse H (Some (JObj [(key, JStr (js ''_duplicate_'' @ path))])) h
       = Some (Inr (VRef (length h),
           h @ [object_literal [(key,
             if path = js ''root'' then VRef (length h)
             else get H (h @ [object_literal [(key, VNull)]]) (VRef (length h))
                    (remove_first (js ''root.'') path))]]))"
proof (intro conjI impI)
  assume k: "key \<noteq> []" "key \<noteq> js ''_constructor-name_''"
  show "revive H this key (VStr (js ''_duplicate_'' @ path)) (h, st)
       = Inr (VNull, h, st\<lparr>refs := refs st @ [\<lparr>target = key, container = this, replacement = path\<rparr>]\<rparr>)"
    using k by (simp add: revive_def revive_string_def isObject_def startsWith_def)
next
  assume "(\<forall>s. v \<noteq> VStr s)
         \<and> \<not> (isObject (foldl (restore_ref H v) h (refs st)) v
               \<and> truthy (getProp (foldl (restore_ref H v) h (refs st)) v (js ''_constructor-name_'')))"
  then show "revive H this [] v (h, st) = Inr (v, foldl (restore_ref H v) h (refs st), st\<lparr>root := v\<rparr>)"
    by (cases v) (auto simp: revive_def)
next
  assume "a < length h \<and> path \<noteq> js ''root''
         \<and> get H h v (remove_first (js ''root.'') path) = VUndefined"
  then show "getProp (restore_ref H v h \<lparr>target = key, container = Holder a, replacement = path\<rparr>) (VRef a) key
             = VUndefined"
    by (simp add: restore_ref_def getProp_setProp)
next
  assume k: "key \<noteq> []" "key \<noteq> js ''_constructor-name_''"
  show "parse H (Some (JObj [(key, JStr (js ''_duplicate_'' @ path))])) h
       = Some (Inr (VRef (length h),
           h @ [object_literal [(key,
             if path = js ''root'' then VRef (length h)
             else get H (h @ [object_literal [(key, VNull)]]) (VRef (length h))
                    (remove_first (js ''root.'') path))]]))"
    by (rule parse_duplicate_member[OF k])
qed

text \<open>
  The amended claim on the text \<open>{"a":"_duplicate_root.nope"}\<close>, with the host of the
  examples: the marker under \<open>a\<close> is answered with the placeholder and recorded; the root
  call on the object \<open>{a: null}\<close> applies the reference, for which \<open>get\<close> finds nothing, and so
  writes \<open>undefined\<close> under \<open>a\<close>; and \<^verbatim>\<open>parse\<close> returns the object \<open>{a: undefined}\<close>.
\<close>

theorem unresolved_duplicate_writes_undefined_witness:
  "js ''a'' \<noteq> [] \<and> js ''a'' \<noteq> js ''_constructor-name_''
   \<and> revive host_example (Holder 0) (js ''a'') (VStr (js ''_duplicate_'' @ js ''root.nope''))
        ([object_literal [(js ''a'', VStr (js ''_duplicate_root.nope''))]], vstate_init)
      = Inr (VNull, [object_literal [(js ''a'', VStr (js ''_duplicate_root.nope''))]],
             vstate_init\<lparr>refs := refs vstate_init @
                [\<lparr>target = js ''a'', container = Holder 0, replacement = js ''root.nope''\<rparr>]\<rparr>)
   \<and> revive host_example (Wrapper (VRef 0)) [] (VRef 0)
        ([object_literal [(js ''a'', VNull)]],
         \<lparr>refs = [\<lparr>target = js ''a'', container = Holder 0, replacement = js ''root.nope''\<rparr>], root = VUndefined\<rparr>)
      = Inr (VRef 0, [object_literal [(js ''a'', VUndefined)]],
         \<lparr>refs = [\<lparr>target = js ''a'', container = Holder 0, replacement = js ''root.nope''\<rparr>], root = VRef 0\<rparr>)
   \<and> get host_example [object_literal [(js ''a'', VNull)]] (VRef 0) (remove_first (js ''root.'') (js ''root.nope''))
      = VUndefined
   \<and> getProp (restore_ref host_example (VRef 0) [object_literal [(js ''a'', VNull)]]
                \<lparr>target = js ''a'', container = Holder 0, replacement = js ''root.nope''\<rparr>) (VRef 0) (js ''a'')
      = VUndefined
   \<and> parse host_example (Some (JObj [(js ''a'', JStr (js ''_duplicate_'' @ js ''root.nope''))])) []
      = Some (Inr (VRef 0, [object_literal [(js ''a'', VUndefined)]]))"
proof -
  let ?r = "\<lparr>target = js ''a'', container = Holder 0, replacement = js ''root.nope''\<rparr>"
  let ?st = "\<lparr>refs = [?r], root = VUndefined\<rparr>"
  let ?h = "[object_literal [(js ''a'', VNull)]]"
  have k: "js ''a'' \<noteq> []" "js ''a'' \<noteq> js ''_constructor-name_''" by simp_all
  have g: "get host_example ?h (VRef 0) (remove_first (js ''root.'') (js ''root.nope'')) = VUndefined"
    by (simp add: host_example_def getProp_def lookup_def object_literal_def startsWith_def)
  have g': "get host_example ([] @ ?h) (VRef (length ([]::heap))) (remove_first (js ''root.'') (js ''root.nope''))
      = VUndefined"
    using g by simp
  have p: "(0::nat) < length ?h \<and> js ''root.nope'' \<noteq> js ''root''" by simp
  have f: "foldl (restore_ref host_example (VRef 0)) ?h (refs ?st) = [object_literal [(js ''a'', VUndefined)]]"
    using g by (simp add: restore_ref_def setProp_def object_literal_def)
  have c: "(\<forall>s. VRef 0 \<noteq> VStr s)
         \<and> \<not> (isObject (foldl (restore_ref host_example (VRef 0)) ?h (refs ?st)) (VRef 0)
               \<and> truthy (getProp (foldl (restore_ref host_example (VRef 0)) ?h (refs ?st)) (VRef 0)
                     (js ''_constructor-name_'')))"
    unfolding f by (simp add: getProp_def lookup_def object_literal_def)
  note t1 = unresolved_duplicate_writes_undefined[OF k, of host_example "Holder 0" "js ''root.nope''"
      "[object_literal [(js ''a'', VStr (js ''_duplicate_root.nope''))]]" vstate_init]
  note t2 = unresolved_duplicate_writes_undefined[OF k, of host_example "Wrapper (VRef 0)" "js ''root.nope''"
      ?h ?st "VRef 0" 0]
  note t3 = unresolved_duplicate_writes_undefined[OF k, of host_example _ "js ''root.nope''" "[]"]
  from t1 have 1: "revive host_example (Holder 0) (js ''a'') (VStr (js ''_duplicate_'' @ js ''root.nope''))
        ([object_literal [(js ''a'', VStr (js ''_duplicate_root.nope''))]], vstate_init)
      = Inr (VNull, [object_literal [(js ''a'', VStr (js ''_duplicate_root.nope''))]],
             vstate_init\<lparr>refs := refs vstate_init @ [?r]\<rparr>)"
    by blast
  from t2 c have "revive host_example (Wrapper (VRef 0)) [] (VRef 0) (?h, ?st)
      = Inr (VRef 0, foldl (restore_ref host_example (VRef 0)) ?h (refs ?st), ?st\<lparr>root := VRef 0\<rparr>)"
    by blast
  then have 2: "revive host_example (Wrapper (VRef 0)) [] (VRef 0) (?h, ?st)
      = Inr (VRef 0, [object_literal [(js ''a'', VUndefined)]], \<lparr>refs = [?r], root = VRef 0\<rparr>)"
    unfolding f by simp
  from t2 g p have 3: "getProp (restore_ref host_example (VRef 0) ?h ?r) (VRef 0) (js ''a'') = VUndefined"
    by blast
  from t3 have "parse host_example (Some (JObj [(js ''a'', JStr (js ''_duplicate_'' @ js ''root.nope''))])) []
       = Some (Inr (VRef (length ([]::heap)),
           [] @ [object_literal [(js ''a'',
             if js ''root.nope'' = js ''root'' then VRef (length ([]::heap))
             else get host_example ([] @ ?h) (VRef (length ([]::heap)))
                    (remove_first (js ''root.'') (js ''root.nope'')))]]))"
    by blast
  then have 4: "parse host_example (Some (JObj [(js ''a'', JStr (js ''_duplicate_'' @ js ''root.nope''))])) []
      = Some (Inr (VRef 0, [object_literal [(js ''a'', VUndefined)]]))"
    unfolding g' by simp
  from k 1 2 g 3 4 show ?thesis by blast
qed

section \<open>Cycles\<close>

text \<open>
  Claim C2: for the object \<open>a\<close> built as \<open>a = {}; a.self = a\<close>, the value
  \<open>b = parse(stringify(a))\<close> is a new object with \<open>b.self === b\<close>. In the heap that holds only
  \<open>a\<close>, at address 0, the decoded object \<open>b\<close> is at address 1, and its \<open>self\<close> is the
  reference to address 1.
\<close>

theorem cycle_preserved:
  "roundtrip H (VRef 0) None [object_literal [(js ''self'', VRef 0)]]
     = Some (Inr (VRef 1, [object_literal [(js ''self'', VRef 0)], object_literal [(js ''self'', VRef 1)]]))
   \<and> getProp [object_literal [(js ''self'', VRef 0)], object_literal [(js ''self'', VRef 1)]]
        (VRef 1) (js ''self'') = VRef 1"
  by code_simp

section \<open>Revived functions\<close>

text \<open>
  Claim C5 says that a decoded function, when called, applies the evaluated function to the
  arguments and yields the same result. The arrow function of lines 204 to 207 calls
  \<open>f(...args)\<close> in a block without \<open>return\<close>: whatever the evaluator makes of the source and
  whatever the arguments are, the call returns \<open>undefined\<close>. Here the object \<open>{f: id}\<close> with
  \<open>function id(x) { return x; }\<close> is encoded and decoded; the decoded \<open>f\<close> reports the name
  and the source of \<open>id\<close>, and called with 1 it returns \<open>undefined\<close>.
\<close>

theorem revived_function_returns_undefined:
  "roundtrip H (VRef 1) None
     [\<lparr>kind = KFunction (js ''id'') (js ''function id(x) { return x; }''), ctor = Some (js ''Function''),
        props = [], integrity = Extensible\<rparr>,
      object_literal [(js ''f'', VRef 0)]]
   = Some (Inr (VRef 2,
     [\<lparr>kind = KFunction (js ''id'') (js ''function id(x) { return x; }''), ctor = Some (js ''Function''),
        props = [], integrity = Extensible\<rparr>,
      object_literal [(js ''f'', VRef 0)],
      object_literal [(js ''f'', VRef 3)],
      \<lparr>kind = KRevived (js ''id'') (js ''function id(x) { return x; }''), ctor = Some (js ''Function''),
        props = [], integrity = Extensible\<rparr>]))
   \<and> call_revived safeEval (js ''function id(x) { return x; }'') [VNum (Finite 1)] = VUndefined"
  by code_simp

section \<open>What encoding changes in the heap\<close>

lemma assign_assign [simp]: "assign (assign ps k v) k v = assign ps k v"
  by (induction ps) auto


lemma marked_idem [simp]: "marked (marked ob) = marked ob"
  by (cases "ctor ob") (simp_all add: marked_def)


lemma only_marked_refl [simp]: "only_marked h h"
  by (simp add: only_marked_def list_all2_same)




























end
